theory Spec2Isabelle
  imports Complex_Main
begin

section \<open>Python values used by the analyzer\<close>

text \<open>
  The development embeds the data-transformation core of \<^verbatim>\<open>youtube_analyzer.py\<close> and the
  request validation of \<^verbatim>\<open>app.py\<close>.  A Python \<^verbatim>\<open>str\<close> is modelled by the list of its UTF-8
  bytes (\<^typ>\<open>string\<close>); byte-wise lexicographic order on UTF-8 coincides with Python's
  code-point order.  Only ASCII digits are recognised as digits: Python's \<^verbatim>\<open>\d\<close> and
  \<^verbatim>\<open>int()\<close> also accept the decimal digits of other scripts, so statements that depend on
  a string being rejected are restricted to ASCII strings.
\<close>

datatype py_error = ValueError | TypeError | IndexError | OverflowError | ZeroDivisionError

definition is_ascii :: "string \<Rightarrow> bool" where
  "is_ascii s = list_all (\<lambda>c. (of_char c :: nat) < 128) s"

text \<open>Python's \<^verbatim>\<open>a < b\<close> on strings: lexicographic, a proper prefix is smaller.\<close>

fun str_less :: "string \<Rightarrow> string \<Rightarrow> bool" where
  "str_less [] [] = False"
| "str_less [] (y # ys) = True"
| "str_less (x # xs) [] = False"
| "str_less (x # xs) (y # ys) =
     ((of_char x :: nat) < of_char y \<or> (x = y \<and> str_less xs ys))"

definition in_range :: "char \<Rightarrow> char \<Rightarrow> char \<Rightarrow> bool" where
  "in_range lo hi c = ((of_char lo :: nat) \<le> of_char c \<and> (of_char c :: nat) \<le> of_char hi)"

definition is_digit :: "char \<Rightarrow> bool" where
  "is_digit c = in_range (CHR ''0'') (CHR ''9'') c"

definition digit_val :: "char \<Rightarrow> nat" where
  "digit_val c = of_char c - 48"

definition digit_char :: "nat \<Rightarrow> char" where
  "digit_char n = ''0123456789'' ! (n mod 10)"

section \<open>Dates: \<^verbatim>\<open>datetime.strptime(s, "%Y-%m-%d")\<close> and \<^verbatim>\<open>isoformat()\<close>\<close>

record datetime =
  year :: nat
  month :: nat
  day :: nat
  hour :: nat
  minute :: nat
  second :: nat

text \<open>
  \<^verbatim>\<open>_strptime\<close> compiles the format to the regular expression
  \<^verbatim>\<open>(?P<Y>\d\d\d\d)-(?P<m>1[0-2]|0[1-9]|[1-9])-(?P<d>3[0-1]|[1-2]\d|0[1-9]|[1-9]| [1-9])\<close>
  and matches it at the start of the string.  Each group below returns its alternatives in
  the order the regular expression tries them, with the text that remains.
\<close>

definition re_year :: "string \<Rightarrow> (nat \<times> string) list" where
  "re_year s =
     (case s of
        a # b # c # d # r \<Rightarrow>
          (if is_digit a \<and> is_digit b \<and> is_digit c \<and> is_digit d
           then [(1000 * digit_val a + 100 * digit_val b + 10 * digit_val c + digit_val d, r)]
           else [])
      | _ \<Rightarrow> [])"

definition re_month :: "string \<Rightarrow> (nat \<times> string) list" where
  "re_month s =
     (case s of
        a # b # r \<Rightarrow>
          (if a = CHR ''1'' \<and> in_range (CHR ''0'') (CHR ''2'') b
           then [(10 + digit_val b, r)] else []) @
          (if a = CHR ''0'' \<and> in_range (CHR ''1'') (CHR ''9'') b
           then [(digit_val b, r)] else [])
      | _ \<Rightarrow> []) @
     (case s of
        a # r \<Rightarrow> (if in_range (CHR ''1'') (CHR ''9'') a then [(digit_val a, r)] else [])
      | _ \<Rightarrow> [])"

definition re_day :: "string \<Rightarrow> (nat \<times> string) list" where
  "re_day s =
     (case s of
        a # b # r \<Rightarrow>
          (if a = CHR ''3'' \<and> in_range (CHR ''0'') (CHR ''1'') b
           then [(30 + digit_val b, r)] else []) @
          (if in_range (CHR ''1'') (CHR ''2'') a \<and> is_digit b
           then [(10 * digit_val a + digit_val b, r)] else []) @
          (if a = CHR ''0'' \<and> in_range (CHR ''1'') (CHR ''9'') b
           then [(digit_val b, r)] else [])
      | _ \<Rightarrow> []) @
     (case s of
        a # r \<Rightarrow> (if in_range (CHR ''1'') (CHR ''9'') a then [(digit_val a, r)] else [])
      | _ \<Rightarrow> []) @
     (case s of
        a # b # r \<Rightarrow>
          (if a = CHR '' '' \<and> in_range (CHR ''1'') (CHR ''9'') b
           then [(digit_val b, r)] else [])
      | _ \<Rightarrow> [])"

definition re_literal :: "char \<Rightarrow> string \<Rightarrow> string list" where
  "re_literal c s = (case s of a # r \<Rightarrow> (if a = c then [r] else []) | [] \<Rightarrow> [])"

text \<open>
  All ways the whole expression matches a prefix, in backtracking order; \<^verbatim>\<open>re.match\<close>
  returns the first.
\<close>

definition re_ymd :: "string \<Rightarrow> ((nat \<times> nat \<times> nat) \<times> string) list" where
  "re_ymd s =
     concat (map (\<lambda>(y, r1).
       concat (map (\<lambda>r2.
         concat (map (\<lambda>(m, r3).
           concat (map (\<lambda>r4.
             map (\<lambda>(d, r5). ((y, m, d), r5)) (re_day r4))
           (re_literal (CHR ''-'') r3)))
         (re_month r2)))
       (re_literal (CHR ''-'') r1)))
     (re_year s))"

definition is_leap :: "nat \<Rightarrow> bool" where
  "is_leap y = (y mod 4 = 0 \<and> (y mod 100 \<noteq> 0 \<or> y mod 400 = 0))"

definition days_in_month :: "nat \<Rightarrow> nat \<Rightarrow> nat" where
  "days_in_month y m =
     (if m = 2 then (if is_leap y then 29 else 28)
      else if m = 4 \<or> m = 6 \<or> m = 9 \<or> m = 11 then 30 else 31)"

text \<open>
  \<^verbatim>\<open>strptime\<close>: no match, unconverted trailing text, year 0 and a day beyond the month's
  length all raise \<^verbatim>\<open>ValueError\<close>.
\<close>

definition strptime_ymd :: "string \<Rightarrow> py_error + datetime" where
  "strptime_ymd s =
     (case re_ymd s of
        [] \<Rightarrow> Inl ValueError
      | ((y, m, d), rest) # _ \<Rightarrow>
          if rest \<noteq> [] then Inl ValueError
          else if y < 1 \<or> d < 1 \<or> days_in_month y m < d then Inl ValueError
          else Inr \<lparr>year = y, month = m, day = d, hour = 0, minute = 0, second = 0\<rparr>)"

definition fmt2 :: "nat \<Rightarrow> string" where
  "fmt2 n = [digit_char (n div 10), digit_char n]"

definition fmt4 :: "nat \<Rightarrow> string" where
  "fmt4 n = [digit_char (n div 1000), digit_char (n div 100), digit_char (n div 10), digit_char n]"

text \<open>\<^verbatim>\<open>datetime.isoformat()\<close> with no microseconds: \<^verbatim>\<open>YYYY-MM-DDTHH:MM:SS\<close>.\<close>

definition isoformat :: "datetime \<Rightarrow> string" where
  "isoformat dt =
     fmt4 (year dt) @ ''-'' @ fmt2 (month dt) @ ''-'' @ fmt2 (day dt) @ ''T'' @
     fmt2 (hour dt) @ '':'' @ fmt2 (minute dt) @ '':'' @ fmt2 (second dt)"

section \<open>The temporal filter of \<^verbatim>\<open>retrieve_youtube_data\<close>\<close>

record playlist_item =
  published_at :: string
  video_id :: string

text \<open>
  Lines 104--110: the start date is parsed inside \<^verbatim>\<open>try\<close>; on \<^verbatim>\<open>ValueError\<close> a warning is
  printed and \<^verbatim>\<open>start_date_str\<close> stays \<^verbatim>\<open>None\<close>.  The result pairs the printed lines
  with the string.
\<close>

definition convert_start_date :: "string option \<Rightarrow> string list \<times> string option" where
  "convert_start_date start_date =
     (case start_date of
        None \<Rightarrow> ([], None)
      | Some s \<Rightarrow>
          (case strptime_ymd s of
             Inr start_date_obj \<Rightarrow> ([], Some (isoformat start_date_obj @ ''Z''))
           | Inl _ \<Rightarrow>
               ([''Warning: Invalid start_date format. Expected YYYY-MM-DD, got '' @ s], None)))"

text \<open>Lines 112--120: the end date is moved to 23:59:59 of its day.\<close>

definition convert_end_date :: "string option \<Rightarrow> string list \<times> string option" where
  "convert_end_date end_date =
     (case end_date of
        None \<Rightarrow> ([], None)
      | Some s \<Rightarrow>
          (case strptime_ymd s of
             Inr end_date_obj \<Rightarrow>
               ([], Some (isoformat (end_date_obj\<lparr>hour := 23, minute := 59, second := 59\<rparr>) @ ''Z''))
           | Inl _ \<Rightarrow>
               ([''Warning: Invalid end_date format. Expected YYYY-MM-DD, got '' @ s], None)))"

text \<open>Lines 127--136: the three checks on one item's \<^verbatim>\<open>publishedAt\<close>.\<close>

definition meets_criteria :: "string option \<Rightarrow> string option \<Rightarrow> string option \<Rightarrow> string \<Rightarrow> bool" where
  "meets_criteria cutoff_date_str start_date_str end_date_str p =
     (let m = True;
          m = (case cutoff_date_str of Some c \<Rightarrow> if str_less p c then False else m | None \<Rightarrow> m);
          m = (case start_date_str of Some s \<Rightarrow> if str_less p s then False else m | None \<Rightarrow> m);
          m = (case end_date_str of Some e \<Rightarrow> if str_less e p then False else m | None \<Rightarrow> m)
      in m)"

text \<open>Lines 123--139: the loop appends the items that meet the criteria.\<close>

fun filter_loop ::
  "string option \<Rightarrow> string option \<Rightarrow> string option \<Rightarrow> playlist_item list \<Rightarrow>
   playlist_item list \<Rightarrow> playlist_item list" where
  "filter_loop c s e [] filtered_items = filtered_items"
| "filter_loop c s e (item # items) filtered_items =
     filter_loop c s e items
       (if meets_criteria c s e (published_at item) then filtered_items @ [item]
        else filtered_items)"

text \<open>
  Lines 93--141.  \<open>cutoff_date_str\<close> is \<^verbatim>\<open>None\<close> exactly when \<^verbatim>\<open>days_ago\<close> is; otherwise it is
  the clock reading \<^verbatim>\<open>(now - days_ago).isoformat() + 'Z'\<close>, taken as given.  The items are
  the \<^verbatim>\<open>'items'\<close> entry of \<^verbatim>\<open>videos_response\<close> (\<open>None\<close> when the key is absent).  The result
  is what was printed and the entry afterwards.
\<close>

definition filter_videos_by_date ::
  "string option \<Rightarrow> string option \<Rightarrow> string option \<Rightarrow> playlist_item list option \<Rightarrow>
   string list \<times> playlist_item list option" where
  "filter_videos_by_date cutoff_date_str start_date end_date items =
     (if cutoff_date_str \<noteq> None \<or> start_date \<noteq> None \<or> end_date \<noteq> None then
        (let (w1, start_date_str) = convert_start_date start_date;
             (w2, end_date_str) = convert_end_date end_date
         in (w1 @ w2,
             Some (filter_loop cutoff_date_str start_date_str end_date_str
                     (case items of None \<Rightarrow> [] | Some xs \<Rightarrow> xs) [])))
      else ([], items))"

section \<open>Numbers: \<^verbatim>\<open>int()\<close> and true division\<close>

text \<open>
  \<^verbatim>\<open>int(s)\<close> on a string: surrounding ASCII whitespace is stripped, one sign is allowed, and
  the digits may be grouped by single underscores.  Since Python 3.11 more than 4300 digits
  raise \<^verbatim>\<open>ValueError\<close> as well.
\<close>

definition is_space :: "char \<Rightarrow> bool" where
  "is_space c = (c = CHR '' '' \<or> in_range (CHR 0x09) (CHR 0x0D) c)"

definition strip :: "string \<Rightarrow> string" where
  "strip s = rev (dropWhile is_space (rev (dropWhile is_space s)))"

fun int_body :: "string \<Rightarrow> nat \<Rightarrow> nat option" where
  "int_body [] acc = Some acc"
| "int_body (c # cs) acc =
     (if is_digit c then int_body cs (10 * acc + digit_val c)
      else if c = CHR ''_'' then
        (case cs of
           d # ds \<Rightarrow> if is_digit d then int_body ds (10 * acc + digit_val d) else None
         | [] \<Rightarrow> None)
      else None)"

definition int_literal :: "string \<Rightarrow> nat option" where
  "int_literal s =
     (case s of
        [] \<Rightarrow> None
      | c # cs \<Rightarrow> if is_digit c then int_body cs (digit_val c) else None)"

definition int_of_str :: "string \<Rightarrow> py_error + int" where
  "int_of_str s =
     (let t = strip s;
          (neg, body) =
            (case t of
               c # r \<Rightarrow>
                 if c = CHR ''-'' then (True, r)
                 else if c = CHR ''+'' then (False, r)
                 else (False, t)
             | [] \<Rightarrow> (False, t))
      in if 4300 < length (filter is_digit body) then Inl ValueError
         else (case int_literal body of
                 None \<Rightarrow> Inl ValueError
               | Some n \<Rightarrow> Inr (if neg then - int n else int n)))"

text \<open>
  A value found in the provider's JSON under a statistics key: the API sends counts as
  strings, stored JSON may hold integers; \<open>JNull\<close> stands for the values \<^verbatim>\<open>int()\<close> rejects
  with \<^verbatim>\<open>TypeError\<close>.
\<close>

datatype json_value = JStr string | JInt int | JNull

definition py_int :: "json_value \<Rightarrow> py_error + int" where
  "py_int v = (case v of JInt n \<Rightarrow> Inr n | JStr s \<Rightarrow> int_of_str s | JNull \<Rightarrow> Inl TypeError)"

text \<open>
  \<^verbatim>\<open>a / b\<close> on integers is the correctly rounded IEEE binary64 quotient (round half to
  even, gradual underflow), \<^verbatim>\<open>ZeroDivisionError\<close> for \<^verbatim>\<open>b == 0\<close> and \<^verbatim>\<open>OverflowError\<close> when
  the rounded magnitude reaches \<open>2\<^sup>1\<^sup>0\<^sup>2\<^sup>4\<close>.  A Python number is represented by the rational it
  denotes, so the integer \<^verbatim>\<open>0\<close> and the floats \<^verbatim>\<open>0.0\<close>, \<^verbatim>\<open>-0.0\<close> are all \<open>0\<close>.
\<close>

fun bit_length :: "nat \<Rightarrow> nat" where
  "bit_length n = (if n = 0 then 0 else Suc (bit_length (n div 2)))"

declare bit_length.simps [simp del]

text \<open>The \<open>k\<close> with \<open>2\<^sup>k \<le> n / d < 2\<^sup>k\<^sup>+\<^sup>1\<close>, for positive \<open>n\<close> and \<open>d\<close>.\<close>

definition quotient_exponent :: "nat \<Rightarrow> nat \<Rightarrow> int" where
  "quotient_exponent n d =
     (let k = int (bit_length n) - int (bit_length d)
      in if d * 2 ^ nat k \<le> n * 2 ^ nat (- k) then k else k - 1)"

definition round_half_even :: "nat \<Rightarrow> nat \<Rightarrow> nat" where
  "round_half_even n d =
     (let q = n div d; r = n mod d
      in if 2 * r < d then q
         else if d < 2 * r then q + 1
         else if even q then q else q + 1)"

text \<open>The correctly rounded magnitude of \<open>n / d\<close> for positive \<open>n\<close> and \<open>d\<close>.\<close>

definition float_quotient :: "nat \<Rightarrow> nat \<Rightarrow> rat" where
  "float_quotient n d =
     (let e = max (quotient_exponent n d - 52) (- 1074);
          m = round_half_even (n * 2 ^ nat (- e)) (d * 2 ^ nat e)
      in of_nat m * 2 ^ nat e / 2 ^ nat (- e))"

definition true_div :: "int \<Rightarrow> int \<Rightarrow> py_error + rat" where
  "true_div a b =
     (if b = 0 then Inl ZeroDivisionError
      else if a = 0 then Inr 0
      else
        (let x = float_quotient (nat \<bar>a\<bar>) (nat \<bar>b\<bar>)
         in if 2 ^ 1024 \<le> x then Inl OverflowError
            else Inr (if (a < 0) = (b < 0) then x else - x)))"

section \<open>Request validation in \<^verbatim>\<open>app.py\<close>\<close>

text \<open>The query parameters \<^verbatim>\<open>analyze_channel\<close> reads with \<^verbatim>\<open>request.args.get\<close>.\<close>

record query_args =
  arg_channel_id :: "string option"
  arg_username :: "string option"
  arg_handle :: "string option"
  arg_days :: "string option"
  arg_start_date :: "string option"
  arg_end_date :: "string option"

text \<open>Truth value of an optional string: \<^verbatim>\<open>None\<close> and \<^verbatim>\<open>''\<close> are false.\<close>

definition truthy :: "string option \<Rightarrow> bool" where
  "truthy v = (case v of None \<Rightarrow> False | Some s \<Rightarrow> s \<noteq> [])"

text \<open>
  Lines 32--73 of \<^verbatim>\<open>analyze_channel\<close>: the checks made before the analysis is called.
  \<open>Some (status, message)\<close> is the error response returned at once; \<open>None\<close> means that
  the request passes these checks and the handler goes on towards the analysis.
\<close>

definition analyze_channel_validation :: "query_args \<Rightarrow> (nat \<times> string) option" where
  "analyze_channel_validation args =
     (if \<not> (truthy (arg_channel_id args) \<or> truthy (arg_username args) \<or> truthy (arg_handle args))
      then Some (400, ''You must provide either channel_id, username, or handle'')
      else if truthy (arg_days args) \<and> isl (int_of_str (the (arg_days args)))
      then Some (400, ''days parameter must be an integer'')
      else if truthy (arg_start_date args) \<and> isl (strptime_ymd (the (arg_start_date args)))
      then Some (400, ''start_date must be in YYYY-MM-DD format'')
      else if truthy (arg_end_date args) \<and> isl (strptime_ymd (the (arg_end_date args)))
      then Some (400, ''end_date must be in YYYY-MM-DD format'')
      else None)"

section \<open>The statistics aggregator\<close>

text \<open>Errors propagate through a sequence of steps as an exception would.\<close>

definition bind_err :: "py_error + 'a \<Rightarrow> ('a \<Rightarrow> py_error + 'b) \<Rightarrow> py_error + 'b" where
  "bind_err m f = (case m of Inl e \<Rightarrow> Inl e | Inr x \<Rightarrow> f x)"

text \<open>The duration parser of \<^verbatim>\<open>calculate_video_averages\<close>, lines 1216--1235.\<close>

fun split_on :: "char \<Rightarrow> string \<Rightarrow> string list" where
  "split_on c [] = [[]]"
| "split_on c (x # xs) =
     (if x = c then [] # split_on c xs
      else (case split_on c xs of p # ps \<Rightarrow> (x # p) # ps | [] \<Rightarrow> [[x]]))"

definition py_index :: "'a list \<Rightarrow> nat \<Rightarrow> py_error + 'a" where
  "py_index xs i = (if i < length xs then Inr (xs ! i) else Inl IndexError)"

text \<open>Each step returns the seconds so far and the rest of the string still to be read.\<close>

definition duration_hours :: "string \<Rightarrow> py_error + int \<times> string" where
  "duration_hours duration =
     (if CHR ''H'' \<in> set duration then
        bind_err (py_index (split_on (CHR ''H'') duration) 0) (\<lambda>before_h.
        bind_err (py_index (split_on (CHR ''T'') before_h) 1) (\<lambda>hours_part.
        bind_err (int_of_str hours_part) (\<lambda>h.
        bind_err (py_index (split_on (CHR ''H'') duration) 1) (\<lambda>rest.
        Inr (h * 3600, rest)))))
      else
        bind_err (py_index (split_on (CHR ''T'') duration) 1) (\<lambda>rest. Inr (0, rest)))"

definition duration_minutes :: "int \<times> string \<Rightarrow> py_error + int \<times> string" where
  "duration_minutes st =
     (case st of (duration_seconds, duration) \<Rightarrow>
        if CHR ''M'' \<in> set duration then
          bind_err (py_index (split_on (CHR ''M'') duration) 0) (\<lambda>minutes_part.
          bind_err (int_of_str minutes_part) (\<lambda>m.
          bind_err (py_index (split_on (CHR ''M'') duration) 1) (\<lambda>rest.
          Inr (duration_seconds + m * 60, rest))))
        else Inr (duration_seconds, duration))"

definition duration_secs :: "int \<times> string \<Rightarrow> py_error + int" where
  "duration_secs st =
     (case st of (duration_seconds, duration) \<Rightarrow>
        if CHR ''S'' \<in> set duration then
          bind_err (py_index (split_on (CHR ''S'') duration) 0) (\<lambda>seconds_part.
          bind_err (int_of_str seconds_part) (\<lambda>s.
          Inr (duration_seconds + s)))
        else Inr duration_seconds)"

definition parse_duration :: "string \<Rightarrow> py_error + int" where
  "parse_duration duration =
     bind_err (duration_hours duration) (\<lambda>st1.
     bind_err (duration_minutes st1) duration_secs)"

text \<open>
  One item of \<^verbatim>\<open>data['video_stats']['items']\<close>: the three entries of its \<^verbatim>\<open>statistics\<close>
  and the \<^verbatim>\<open>duration\<close> of its \<^verbatim>\<open>contentDetails\<close>, each \<open>None\<close> when the key is absent.
\<close>

record video =
  viewCount :: "json_value option"
  likeCount :: "json_value option"
  commentCount :: "json_value option"
  duration :: "string option"

text \<open>\<^verbatim>\<open>int(statistics.get(key, 0))\<close>\<close>

definition get_count :: "json_value option \<Rightarrow> py_error + int" where
  "get_count v = (case v of None \<Rightarrow> Inr 0 | Some x \<Rightarrow> py_int x)"

text \<open>
  The generator \<^verbatim>\<open>(int(video.get('statistics', {}).get(key, 0)) for video in videos)\<close>,
  consumed to its end: the first conversion that raises ends it.
\<close>

fun gen_counts :: "(video \<Rightarrow> json_value option) \<Rightarrow> video list \<Rightarrow> py_error + int list" where
  "gen_counts key [] = Inr []"
| "gen_counts key (v # vs) =
     bind_err (get_count (key v)) (\<lambda>n.
     bind_err (gen_counts key vs) (\<lambda>ns. Inr (n # ns)))"

definition py_sum :: "int list \<Rightarrow> int" where
  "py_sum xs = foldl (+) 0 xs"

definition py_max :: "int list \<Rightarrow> py_error + int" where
  "py_max xs = (case xs of [] \<Rightarrow> Inl ValueError | x # r \<Rightarrow> Inr (foldl max x r))"

definition py_min :: "int list \<Rightarrow> py_error + int" where
  "py_min xs = (case xs of [] \<Rightarrow> Inl ValueError | x # r \<Rightarrow> Inr (foldl min x r))"

record video_metrics =
  analyzed_videos_count :: nat
  avg_views :: rat
  max_views :: int
  min_views :: int
  total_views :: int
  avg_likes :: rat
  avg_comments :: rat
  engagement_rate :: rat

text \<open>
  Lines 592--620 of \<^verbatim>\<open>extract_account_metrics\<close>: the \<^verbatim>\<open>'video_metrics'\<close> entry for the list
  \<^verbatim>\<open>videos\<close>, \<open>None\<close> when the entry is not set.
\<close>

definition extract_video_metrics :: "video list \<Rightarrow> py_error + video_metrics option" where
  "extract_video_metrics videos =
     (if videos \<noteq> [] then
        bind_err (gen_counts viewCount videos) (\<lambda>views.
        bind_err (gen_counts likeCount videos) (\<lambda>likes.
        bind_err (gen_counts commentCount videos) (\<lambda>comments.
        let total_views = py_sum views;
            total_likes = py_sum likes;
            total_comments = py_sum comments
        in
        bind_err (if videos \<noteq> [] then true_div total_views (int (length videos)) else Inr 0)
          (\<lambda>avg_views.
        bind_err (if videos \<noteq> [] then true_div total_likes (int (length videos)) else Inr 0)
          (\<lambda>avg_likes.
        bind_err (if videos \<noteq> [] then true_div total_comments (int (length videos)) else Inr 0)
          (\<lambda>avg_comments.
        bind_err (if total_views > 0 then true_div (total_likes + total_comments) total_views
                  else Inr 0)
          (\<lambda>engagement_rate.
        bind_err (if videos \<noteq> [] then bind_err (gen_counts viewCount videos) py_max else Inr 0)
          (\<lambda>max_views.
        bind_err (if videos \<noteq> [] then bind_err (gen_counts viewCount videos) py_min else Inr 0)
          (\<lambda>min_views.
        Inr (Some \<lparr>analyzed_videos_count = length videos,
                   avg_views = avg_views,
                   max_views = max_views,
                   min_views = min_views,
                   total_views = total_views,
                   avg_likes = avg_likes,
                   avg_comments = avg_comments,
                   engagement_rate = engagement_rate\<rparr>))))))))))
      else Inr None)"

text \<open>
  The channel resource \<^verbatim>\<open>data['items'][0]\<close> (its id, the title of its snippet and its
  statistics) and the data handed to \<^verbatim>\<open>extract_account_metrics\<close>; \<open>video_stats\<close> is \<open>None\<close>
  when \<^verbatim>\<open>data\<close> has no \<^verbatim>\<open>'video_stats'\<close> entry with \<^verbatim>\<open>'items'\<close>.
\<close>

record channel_resource =
  resource_id :: "string option"
  snippet_title :: "string option"
  subscriberCount :: "json_value option"
  videoCount :: "json_value option"
  channel_viewCount :: "json_value option"

record yt_data =
  channel_items :: "channel_resource list"
  video_stats :: "video list option"

record channel_info =
  info_id :: string
  title :: string
  subscriber_count :: int
  video_count :: int
  channel_total_views :: int

text \<open>
  Lines 1211--1240: what one video adds to \<^verbatim>\<open>total_duration_seconds\<close>.  An absent or empty
  duration is skipped; an exception while parsing is caught and nothing is added.
\<close>

definition duration_seconds_of :: "string option \<Rightarrow> int" where
  "duration_seconds_of d =
     (case d of
        None \<Rightarrow> 0
      | Some s \<Rightarrow>
          if s = [] then 0
          else (case parse_duration s of Inl _ \<Rightarrow> 0 | Inr n \<Rightarrow> n))"

record totals =
  sum_views :: int
  sum_likes :: int
  sum_comments :: int
  sum_duration_seconds :: int
  view_counts :: "int list"

text \<open>Lines 1195--1240: the loop over the videos, threading the five accumulators.\<close>

fun averages_loop :: "video list \<Rightarrow> totals \<Rightarrow> py_error + totals" where
  "averages_loop [] st = Inr st"
| "averages_loop (v # vs) st =
     bind_err (get_count (viewCount v)) (\<lambda>view_count.
     bind_err (get_count (likeCount v)) (\<lambda>likes.
     bind_err (get_count (commentCount v)) (\<lambda>comments.
     averages_loop vs
       \<lparr>sum_views = sum_views st + view_count,
        sum_likes = sum_likes st + likes,
        sum_comments = sum_comments st + comments,
        sum_duration_seconds = sum_duration_seconds st + duration_seconds_of (duration v),
        view_counts = view_counts st @ [view_count]\<rparr>)))"

record video_averages =
  count :: nat
  avg_views :: rat
  avg_likes :: rat
  avg_comments :: rat
  engagement_rate :: rat
  max_views :: int
  min_views :: int
  avg_duration_seconds :: rat
  like_to_view_ratio :: rat
  comment_to_view_ratio :: rat

definition calculate_video_averages :: "video list \<Rightarrow> py_error + video_averages" where
  "calculate_video_averages videos =
     (if videos = [] then
        Inr \<lparr>count = 0, avg_views = 0, avg_likes = 0, avg_comments = 0, engagement_rate = 0,
             max_views = 0, min_views = 0, avg_duration_seconds = 0, like_to_view_ratio = 0,
             comment_to_view_ratio = 0\<rparr>
      else
        bind_err (averages_loop videos
                    \<lparr>sum_views = 0, sum_likes = 0, sum_comments = 0, sum_duration_seconds = 0,
                     view_counts = []\<rparr>) (\<lambda>st.
        let n = length videos in
        bind_err (if n > 0 then true_div (sum_views st) (int n) else Inr 0) (\<lambda>avg_views.
        bind_err (if n > 0 then true_div (sum_likes st) (int n) else Inr 0) (\<lambda>avg_likes.
        bind_err (if n > 0 then true_div (sum_comments st) (int n) else Inr 0) (\<lambda>avg_comments.
        bind_err (if n > 0 then true_div (sum_duration_seconds st) (int n) else Inr 0)
          (\<lambda>avg_duration_seconds.
        bind_err (if sum_views st > 0
                  then true_div (sum_likes st + sum_comments st) (sum_views st) else Inr 0)
          (\<lambda>engagement_rate.
        bind_err (if sum_views st > 0 then true_div (sum_likes st) (sum_views st) else Inr 0)
          (\<lambda>like_to_view_ratio.
        bind_err (if sum_views st > 0 then true_div (sum_comments st) (sum_views st) else Inr 0)
          (\<lambda>comment_to_view_ratio.
        bind_err (if view_counts st \<noteq> [] then py_max (view_counts st) else Inr 0) (\<lambda>max_views.
        bind_err (if view_counts st \<noteq> [] then py_min (view_counts st) else Inr 0) (\<lambda>min_views.
        Inr \<lparr>count = n, avg_views = avg_views, avg_likes = avg_likes,
             avg_comments = avg_comments, engagement_rate = engagement_rate,
             max_views = max_views, min_views = min_views,
             avg_duration_seconds = avg_duration_seconds,
             like_to_view_ratio = like_to_view_ratio,
             comment_to_view_ratio = comment_to_view_ratio\<rparr>)))))))))))"

record link =
  link_text :: string
  url :: string

text \<open>
  The \<^verbatim>\<open>metrics\<close> dictionary; an entry is \<open>None\<close> while its key is not set.  The
  \<^verbatim>\<open>'recent_videos'\<close> entry (lines 622--651) is not represented.
\<close>

record metrics =
  channel_info :: "channel_info option"
  video_metrics :: "video_metrics option"
  video_averages :: "video_averages option"
  external_links :: "link list option"

text \<open>
  \<^verbatim>\<open>extract_account_metrics\<close>, lines 560--655: \<^verbatim>\<open>{}\<close> without a channel, otherwise the channel
  information and, when \<^verbatim>\<open>data\<close> carries video statistics, the video metrics.
\<close>

definition extract_account_metrics :: "yt_data \<Rightarrow> py_error + metrics" where
  "extract_account_metrics data =
     (case channel_items data of
        [] \<Rightarrow>
          Inr \<lparr>channel_info = None, video_metrics = None, video_averages = None,
               external_links = None\<rparr>
      | channel # _ \<Rightarrow>
          bind_err (get_count (subscriberCount channel)) (\<lambda>subscribers.
          bind_err (get_count (videoCount channel)) (\<lambda>n_videos.
          bind_err (get_count (channel_viewCount channel)) (\<lambda>views.
          let info =
                \<lparr>info_id = (case resource_id channel of None \<Rightarrow> ''Unknown'' | Some i \<Rightarrow> i),
                 title = (case snippet_title channel of None \<Rightarrow> ''Unknown'' | Some t \<Rightarrow> t),
                 subscriber_count = subscribers,
                 video_count = n_videos,
                 channel_total_views = views\<rparr>
          in (case video_stats data of
                None \<Rightarrow>
                  Inr \<lparr>channel_info = Some info, video_metrics = None, video_averages = None,
                       external_links = None\<rparr>
              | Some videos \<Rightarrow>
                  bind_err (extract_video_metrics videos) (\<lambda>vm.
                  Inr \<lparr>channel_info = Some info, video_metrics = vm, video_averages = None,
                       external_links = None\<rparr>))))))"

section \<open>The link normalizer\<close>

text \<open>
  \<^verbatim>\<open>extract_direct_url\<close> calls \<^verbatim>\<open>urlparse\<close>, \<^verbatim>\<open>parse_qs\<close> and \<^verbatim>\<open>unquote\<close> of \<^verbatim>\<open>urllib.parse\<close>.  They
  are modelled as of Python 3.11, on UTF-8 bytes, as far as the query string and the
  decoding of its \<^verbatim>\<open>q\<close> parameter go.  Of the checks \<^verbatim>\<open>urlsplit\<close> makes on the network
  location, the test for an unmatched bracket is modelled; the validation of a bracketed
  IPv6 host and the NFKC check of a non-ASCII host are not (both can only turn a result
  into the unchanged input).
\<close>

text \<open>\<^verbatim>\<open>sub in s\<close>\<close>

fun contains :: "string \<Rightarrow> string \<Rightarrow> bool" where
  "contains sub [] = (sub = [])"
| "contains sub (c # cs) = (take (length sub) (c # cs) = sub \<or> contains sub cs)"

definition is_alpha :: "char \<Rightarrow> bool" where
  "is_alpha c = (in_range (CHR ''a'') (CHR ''z'') c \<or> in_range (CHR ''A'') (CHR ''Z'') c)"

definition is_scheme_char :: "char \<Rightarrow> bool" where
  "is_scheme_char c = (is_alpha c \<or> is_digit c \<or> c = CHR ''+'' \<or> c = CHR ''-'' \<or> c = CHR ''.'')"

text \<open>
  \<^verbatim>\<open>urlsplit(u).query\<close>: leading control characters and spaces are stripped, tabs and line
  breaks removed, a scheme and a network location split off, then the fragment after the
  first \<^verbatim>\<open>#\<close> is cut and the query is what follows the first \<^verbatim>\<open>?\<close>.
\<close>

definition urlparse_query :: "string \<Rightarrow> py_error + string" where
  "urlparse_query u =
     (let u1 = dropWhile (\<lambda>c. (of_char c :: nat) \<le> 32) u;
          u2 = filter (\<lambda>c. c \<noteq> CHR 0x09 \<and> c \<noteq> CHR 0x0D \<and> c \<noteq> CHR 0x0A) u1;
          p = takeWhile (\<lambda>c. c \<noteq> CHR '':'') u2;
          u3 = (if length p < length u2 \<and> p \<noteq> [] \<and> is_alpha (hd p) \<and> list_all is_scheme_char p
                then drop (length p + 1) u2 else u2);
          netloc = (if take 2 u3 = ''//''
                    then takeWhile (\<lambda>c. c \<noteq> CHR ''/'' \<and> c \<noteq> CHR ''?'' \<and> c \<noteq> CHR ''#'') (drop 2 u3)
                    else []);
          u4 = (if take 2 u3 = ''//'' then drop (2 + length netloc) u3 else u3)
      in if (CHR ''['' \<in> set netloc) \<noteq> (CHR '']'' \<in> set netloc) then Inl ValueError
         else
           (let u5 = takeWhile (\<lambda>c. c \<noteq> CHR ''#'') u4
            in Inr (if CHR ''?'' \<in> set u5 then drop 1 (dropWhile (\<lambda>c. c \<noteq> CHR ''?'') u5) else [])))"

definition hex_val :: "char \<Rightarrow> nat option" where
  "hex_val c =
     (if is_digit c then Some (of_char c - 48)
      else if in_range (CHR ''a'') (CHR ''f'') c then Some (of_char c - 87)
      else if in_range (CHR ''A'') (CHR ''F'') c then Some (of_char c - 55)
      else None)"

text \<open>One piece after a \<^verbatim>\<open>%\<close> in \<^verbatim>\<open>unquote_to_bytes\<close>: two hex digits become a byte.\<close>

definition unquote_item :: "string \<Rightarrow> string" where
  "unquote_item item =
     (case item of
        a # b # rest \<Rightarrow>
          (case (hex_val a, hex_val b) of
             (Some h, Some l) \<Rightarrow> char_of (16 * h + l) # rest
           | _ \<Rightarrow> CHR ''%'' # item)
      | _ \<Rightarrow> CHR ''%'' # item)"

definition unquote_to_bytes :: "string \<Rightarrow> string" where
  "unquote_to_bytes s =
     (case split_on (CHR ''%'') s of
        [] \<Rightarrow> []
      | first # items \<Rightarrow> first @ concat (map unquote_item items))"

text \<open>
  \<^verbatim>\<open>bytes.decode('utf-8', 'replace')\<close>, with the result written in UTF-8 again: well-formed
  sequences are kept, every maximal ill-formed part becomes U+FFFD.
\<close>

definition is_cont :: "char \<Rightarrow> bool" where
  "is_cont c = (128 \<le> (of_char c :: nat) \<and> (of_char c :: nat) \<le> 191)"

definition replacement :: string where
  "replacement = [CHR 0xEF, CHR 0xBF, CHR 0xBD]"

text \<open>The second byte allowed after the lead byte \<open>b\<close> of a three- or four-byte sequence.\<close>

definition second_ok :: "char \<Rightarrow> char \<Rightarrow> bool" where
  "second_ok b c =
     (is_cont c \<and>
      \<not> (b = CHR 0xE0 \<and> (of_char c :: nat) < 160) \<and>
      \<not> (b = CHR 0xED \<and> 160 \<le> (of_char c :: nat)) \<and>
      \<not> (b = CHR 0xF0 \<and> (of_char c :: nat) < 144) \<and>
      \<not> (b = CHR 0xF4 \<and> 144 \<le> (of_char c :: nat)))"

fun utf8_replace :: "string \<Rightarrow> string" where
  "utf8_replace [] = []"
| "utf8_replace (b # bs) =
     (let n = (of_char b :: nat) in
      if n < 128 then b # utf8_replace bs
      else if 194 \<le> n \<and> n \<le> 223 then
        (case bs of
           [] \<Rightarrow> replacement
         | c # cs \<Rightarrow>
             if is_cont c then b # c # utf8_replace cs
             else replacement @ utf8_replace bs)
      else if 224 \<le> n \<and> n \<le> 239 then
        (case bs of
           [] \<Rightarrow> replacement
         | c # cs \<Rightarrow>
             if \<not> second_ok b c then replacement @ utf8_replace bs
             else
               (case cs of
                  [] \<Rightarrow> replacement
                | d # ds \<Rightarrow>
                    if is_cont d then b # c # d # utf8_replace ds
                    else replacement @ utf8_replace cs))
      else if 240 \<le> n \<and> n \<le> 244 then
        (case bs of
           [] \<Rightarrow> replacement
         | c # cs \<Rightarrow>
             if \<not> second_ok b c then replacement @ utf8_replace bs
             else
               (case cs of
                  [] \<Rightarrow> replacement
                | d # ds \<Rightarrow>
                    if \<not> is_cont d then replacement @ utf8_replace cs
                    else
                      (case ds of
                         [] \<Rightarrow> replacement
                       | e # es \<Rightarrow>
                           if is_cont e then b # c # d # e # utf8_replace es
                           else replacement @ utf8_replace ds)))
      else replacement @ utf8_replace bs)"

text \<open>
  \<^verbatim>\<open>unquote\<close>: a string without \<^verbatim>\<open>%\<close> is returned as it is; otherwise every maximal run of
  ASCII characters is percent-decoded and the bytes obtained are decoded as UTF-8, and the
  non-ASCII characters between the runs are kept.  \<open>run\<close> is the ASCII run read so far.
\<close>

fun unquote_scan :: "string \<Rightarrow> string \<Rightarrow> string" where
  "unquote_scan run [] = utf8_replace (unquote_to_bytes run)"
| "unquote_scan run (c # cs) =
     (if (of_char c :: nat) < 128 then unquote_scan (run @ [c]) cs
      else utf8_replace (unquote_to_bytes run) @ c # unquote_scan [] cs)"

definition unquote :: "string \<Rightarrow> string" where
  "unquote s = (if CHR ''%'' \<notin> set s then s else unquote_scan [] s)"

definition unquote_plus :: "string \<Rightarrow> string" where
  "unquote_plus s = unquote (map (\<lambda>c. if c = CHR ''+'' then CHR '' '' else c) s)"

text \<open>
  \<^verbatim>\<open>parse_qsl\<close> with its defaults: the fields between \<^verbatim>\<open>&\<close> are split at their first \<^verbatim>\<open>=\<close>;
  empty fields and fields with an empty value are dropped.
\<close>

definition parse_qsl :: "string \<Rightarrow> (string \<times> string) list" where
  "parse_qsl qs =
     (if qs = [] then []
      else concat (map (\<lambda>name_value.
             let name = takeWhile (\<lambda>c. c \<noteq> CHR ''='') name_value;
                 val = drop 1 (dropWhile (\<lambda>c. c \<noteq> CHR ''='') name_value)
             in if name_value \<noteq> [] \<and> val \<noteq> [] then [(unquote_plus name, unquote_plus val)]
                else [])
           (split_on (CHR ''&'') qs)))"

text \<open>
  A Python dictionary as the list of its entries in insertion order: assigning to a key
  that is present replaces the value in place, a new key goes to the end.
\<close>

fun dict_set :: "'k \<Rightarrow> 'v \<Rightarrow> ('k \<times> 'v) list \<Rightarrow> ('k \<times> 'v) list" where
  "dict_set k v [] = [(k, v)]"
| "dict_set k v ((k', v') # kvs) =
     (if k' = k then (k, v) # kvs else (k', v') # dict_set k v kvs)"

definition parse_qs :: "string \<Rightarrow> (string \<times> string list) list" where
  "parse_qs qs =
     foldl (\<lambda>parsed_result (name, val).
             (case map_of parsed_result name of
                Some vals \<Rightarrow> dict_set name (vals @ [val]) parsed_result
              | None \<Rightarrow> dict_set name [val] parsed_result))
       [] (parse_qsl qs)"

text \<open>
  \<^verbatim>\<open>extract_direct_url\<close>, lines 186--201.  An exception inside \<^verbatim>\<open>try\<close> is printed and the
  original URL returned.
\<close>

definition extract_direct_url :: "string \<Rightarrow> string" where
  "extract_direct_url youtube_redirect_url =
     (if contains ''youtube.com/redirect'' youtube_redirect_url then
        (case urlparse_query youtube_redirect_url of
           Inl _ \<Rightarrow> youtube_redirect_url
         | Inr query \<Rightarrow>
             (case map_of (parse_qs query) ''q'' of
                Some (direct # _) \<Rightarrow> unquote direct
              | _ \<Rightarrow> youtube_redirect_url))
      else youtube_redirect_url)"

section \<open>The batch orchestrator and the export\<close>

text \<open>
  One entry of the list returned by \<^verbatim>\<open>search_youtube_channels\<close>, and the dictionary returned
  by \<^verbatim>\<open>analyze_youtube_channel\<close> (of which only \<^verbatim>\<open>'metrics'\<close> is read afterwards).
\<close>

record search_channel =
  channel_id :: string
  channel_title :: string

record analysis_result =
  metrics :: metrics

text \<open>
  \<^verbatim>\<open>analyze_search_results\<close>, lines 1080--1106.  The analysis of one channel queries the
  provider; it is a parameter that takes the state of the outside world and the channel id
  and returns the result (\<open>None\<close> when the channel could not be analysed) with the new
  state.  The results are the dictionary built so far.
\<close>

fun analyze_loop ::
  "('w \<Rightarrow> string \<Rightarrow> analysis_result option \<times> 'w) \<Rightarrow> 'w \<Rightarrow> search_channel list \<Rightarrow>
   (string \<times> analysis_result) list \<Rightarrow> (string \<times> analysis_result) list" where
  "analyze_loop analyze w [] results = results"
| "analyze_loop analyze w (channel # channels) results =
     (case analyze w (channel_id channel) of
        (result, w') \<Rightarrow>
          analyze_loop analyze w' channels
            (case result of
               Some r \<Rightarrow> dict_set (channel_id channel) r results
             | None \<Rightarrow> results))"

definition analyze_search_results ::
  "('w \<Rightarrow> string \<Rightarrow> analysis_result option \<times> 'w) \<Rightarrow> 'w \<Rightarrow> search_channel list \<Rightarrow>
   (string \<times> analysis_result) list" where
  "analyze_search_results analyze w channels = analyze_loop analyze w channels []"

text \<open>The outcome of each call the loop makes, in order, with the id it was made for.\<close>

fun analysis_outcomes ::
  "('w \<Rightarrow> string \<Rightarrow> analysis_result option \<times> 'w) \<Rightarrow> 'w \<Rightarrow> search_channel list \<Rightarrow>
   (string \<times> analysis_result option) list" where
  "analysis_outcomes analyze w [] = []"
| "analysis_outcomes analyze w (channel # channels) =
     (case analyze w (channel_id channel) of
        (result, w') \<Rightarrow> (channel_id channel, result) # analysis_outcomes analyze w' channels)"

text \<open>The elements of a list in the order of their first occurrence.\<close>

definition add_key :: "'a list \<Rightarrow> 'a \<Rightarrow> 'a list" where
  "add_key ks k = (if k \<in> set ks then ks else ks @ [k])"

definition first_occurrences :: "'a list \<Rightarrow> 'a list" where
  "first_occurrences xs = foldl add_key [] xs"

text \<open>
  \<^verbatim>\<open>export_to_json\<close>, lines 1121--1143: the \<^verbatim>\<open>export_data\<close> document that is built and then
  written to the file, \<open>None\<close> when there are no results.  The key of a channel's entry is
  \<^verbatim>\<open>metrics.get('channel_info', {}).get('title', channel_id)\<close>; the entry repeats the parts of
  the metrics.  The time stamp is the clock reading, taken as given.
\<close>

definition export_key :: "string \<Rightarrow> analysis_result \<Rightarrow> string" where
  "export_key cid result =
     (case channel_info (metrics result) of None \<Rightarrow> cid | Some info \<Rightarrow> title info)"

record export_data =
  export_query :: string
  export_timestamp :: string
  export_channels :: "(string \<times> metrics) list"

definition export_to_json ::
  "string \<Rightarrow> (string \<times> analysis_result) list \<Rightarrow> string option \<Rightarrow> export_data option" where
  "export_to_json now results query =
     (if results = [] then None
      else Some
        \<lparr>export_query = (case query of None \<Rightarrow> ''direct_export''
                          | Some q \<Rightarrow> if q = [] then ''direct_export'' else q),
         export_timestamp = now,
         export_channels =
           foldl (\<lambda>chans (cid, result). dict_set (export_key cid result) (metrics result) chans)
             [] results\<rparr>)"

section \<open>Example data\<close>

text \<open>
  The three videos of the specification's scenario (views 100, 50, 10; likes 10, 5, 1;
  comments 2, 1, 0), as the provider sends them, and a channel that owns them.
\<close>

definition scenario_videos :: "video list" where
  "scenario_videos =
     [\<lparr>viewCount = Some (JStr ''100''), likeCount = Some (JStr ''10''),
       commentCount = Some (JStr ''2''), duration = Some ''PT5M13S''\<rparr>,
      \<lparr>viewCount = Some (JStr ''50''), likeCount = Some (JStr ''5''),
       commentCount = Some (JStr ''1''), duration = Some ''PT1H''\<rparr>,
      \<lparr>viewCount = Some (JStr ''10''), likeCount = Some (JStr ''1''),
       commentCount = Some (JStr ''0''), duration = Some ''PT''\<rparr>]"

definition scenario_channel :: channel_resource where
  "scenario_channel =
     \<lparr>resource_id = Some ''UC123'', snippet_title = Some ''News'',
      subscriberCount = Some (JStr ''10''), videoCount = Some (JStr ''3''),
      channel_viewCount = Some (JStr ''160'')\<rparr>"

definition scenario_info :: channel_info where
  "scenario_info =
     \<lparr>info_id = ''UC123'', title = ''News'', subscriber_count = 10, video_count = 3,
      channel_total_views = 160\<rparr>"

definition scenario_summary :: video_metrics where
  "scenario_summary =
     \<lparr>analyzed_videos_count = 3,
      avg_views = 7505999378950827 / 140737488355328, max_views = 100,
      min_views = 10, total_views = 160,
      avg_likes = 6004799503160661 / 1125899906842624, avg_comments = 1,
      engagement_rate = 4278419646001971 / 36028797018963968\<rparr>"

definition scenario_averages :: video_averages where
  "scenario_averages =
     \<lparr>count = 3, avg_views = 7505999378950827 / 140737488355328,
      avg_likes = 6004799503160661 / 1125899906842624, avg_comments = 1,
      engagement_rate = 4278419646001971 / 36028797018963968,
      max_views = 100, min_views = 10,
      avg_duration_seconds = 5736518665983317 / 4398046511104,
      like_to_view_ratio = 3602879701896397 / 36028797018963968,
      comment_to_view_ratio = 5404319552844595 / 288230376151711744\<rparr>"

text \<open>
  A provider for the batch scenario: every channel id is found except \<^verbatim>\<open>UCmissing\<close>, and
  every channel found is titled ``News''.  The state counts the calls made.
\<close>

definition scenario_result :: "string \<Rightarrow> analysis_result" where
  "scenario_result cid =
     \<lparr>metrics =
        \<lparr>channel_info = Some (scenario_info\<lparr>info_id := cid\<rparr>),
         video_metrics = Some scenario_summary,
         video_averages = Some scenario_averages,
         external_links = Some []\<rparr>\<rparr>"

definition scenario_analyze :: "nat \<Rightarrow> string \<Rightarrow> analysis_result option \<times> nat" where
  "scenario_analyze calls cid =
     (if cid = ''UCmissing'' then None else Some (scenario_result cid), Suc calls)"

section \<open>Properties of the temporal filter\<close>

lemmas date_defs =
  strptime_ymd_def re_ymd_def re_year_def re_month_def re_day_def re_literal_def
  is_digit_def in_range_def digit_val_def days_in_month_def is_leap_def
  isoformat_def fmt2_def fmt4_def digit_char_def

lemma filter_loop_eq:
  "filter_loop c s e items acc =
     acc @ filter (\<lambda>i. meets_criteria c s e (published_at i)) items"
  by (induction items arbitrary: acc) simp_all

lemma meets_criteria_conj:
  "meets_criteria c s e p =
     ((case c of None \<Rightarrow> True | Some x \<Rightarrow> \<not> str_less p x) \<and>
      (case s of None \<Rightarrow> True | Some x \<Rightarrow> \<not> str_less p x) \<and>
      (case e of None \<Rightarrow> True | Some x \<Rightarrow> \<not> str_less x p))"
  by (auto simp add: meets_criteria_def split: option.splits)


lemma convert_start_date_bad:
  "strptime_ymd s = Inl err \<Longrightarrow>
   convert_start_date (Some s) =
     ([''Warning: Invalid start_date format. Expected YYYY-MM-DD, got '' @ s], None)"
  by (simp add: convert_start_date_def)

lemma convert_end_date_bad:
  "strptime_ymd s = Inl err \<Longrightarrow>
   convert_end_date (Some s) =
     ([''Warning: Invalid end_date format. Expected YYYY-MM-DD, got '' @ s], None)"
  by (simp add: convert_end_date_def)


lemma strptime_2024_01_31:
  "strptime_ymd ''2024-01-31'' =
     Inr \<lparr>year = 2024, month = 1, day = 31, hour = 0, minute = 0, second = 0\<rparr>"
  by (simp add: date_defs)

lemma strptime_2024_13_45: "strptime_ymd ''2024-13-45'' = Inl ValueError"
  by (simp add: date_defs)


lemma convert_end_2024_01_31:
  "convert_end_date (Some ''2024-01-31'') = ([], Some ''2024-01-31T23:59:59Z'')"
  by (simp add: convert_end_date_def strptime_2024_01_31) (simp add: date_defs)

text \<open>
  C10.  With no relative window, no start date and no end date the guard of line 94 is
  false: nothing is printed and the \<^verbatim>\<open>'items'\<close> entry is left exactly as it was, so every
  list of items comes back unchanged and in its original order.
\<close>

theorem temporal_filter_no_constraints_identity:
  "filter_videos_by_date None None None items = ([], items)"
  by (simp add: filter_videos_by_date_def)

theorem temporal_filter_no_constraints_identity_witness:
  "filter_videos_by_date None None None
     (Some [\<lparr>published_at = ''2024-02-01T00:00:00Z'', video_id = ''b''\<rparr>,
            \<lparr>published_at = ''2024-01-15T00:00:00Z'', video_id = ''a''\<rparr>]) =
   ([], Some [\<lparr>published_at = ''2024-02-01T00:00:00Z'', video_id = ''b''\<rparr>,
              \<lparr>published_at = ''2024-01-15T00:00:00Z'', video_id = ''a''\<rparr>])"
  by (rule temporal_filter_no_constraints_identity)



text \<open>
  C1 (as stated).  A start date that \<^verbatim>\<open>strptime\<close> rejects does not stop
  \<^verbatim>\<open>retrieve_youtube_data\<close>: a warning is printed, the start constraint is dropped and the
  items are filtered by the end date alone, so an item from 2023 passes a filter whose
  start date was meant to lie in 2024.
\<close>

theorem unparsable_date_fail_fast_counterexample:
  "strptime_ymd ''2024-13-45'' = Inl ValueError \<and>
   filter_videos_by_date None (Some ''2024-13-45'') (Some ''2024-01-31'')
     (Some [\<lparr>published_at = ''2023-06-01T00:00:00Z'', video_id = ''a''\<rparr>,
            \<lparr>published_at = ''2024-02-01T00:00:00Z'', video_id = ''b''\<rparr>]) =
   ([''Warning: Invalid start_date format. Expected YYYY-MM-DD, got 2024-13-45''],
    Some [\<lparr>published_at = ''2023-06-01T00:00:00Z'', video_id = ''a''\<rparr>])"
  by (simp add: strptime_2024_13_45 filter_videos_by_date_def convert_start_date_def
        convert_end_2024_01_31 filter_loop_eq meets_criteria_conj)

text \<open>
  C1 (amended).  The check is made at the HTTP boundary only: \<^verbatim>\<open>analyze_channel\<close> answers a
  non-empty start or end date that does not parse with status 400 before the analysis is
  called.  The temporal filter itself never fails on such a string: it prints a warning,
  drops that one constraint and keeps exactly the items that meet the remaining ones.
\<close>

theorem unparsable_date_rejected_at_boundary_ignored_by_filter:
  assumes "is_ascii s" and "strptime_ymd s = Inl err"
  shows "(s \<noteq> [] \<and> (arg_start_date args = Some s \<or> arg_end_date args = Some s) \<longrightarrow>
            (\<exists>msg. analyze_channel_validation args = Some (400, msg))) \<and>
         filter_videos_by_date c (Some s) ed items =
           ((''Warning: Invalid start_date format. Expected YYYY-MM-DD, got '' @ s) #
              fst (convert_end_date ed),
            Some (filter (\<lambda>i. meets_criteria c None (snd (convert_end_date ed)) (published_at i))
                    (case items of None \<Rightarrow> [] | Some xs \<Rightarrow> xs))) \<and>
         filter_videos_by_date c sd (Some s) items =
           (fst (convert_start_date sd) @
              [''Warning: Invalid end_date format. Expected YYYY-MM-DD, got '' @ s],
            Some (filter (\<lambda>i. meets_criteria c (snd (convert_start_date sd)) None (published_at i))
                    (case items of None \<Rightarrow> [] | Some xs \<Rightarrow> xs)))"
proof (intro conjI impI)
  assume a: "s \<noteq> [] \<and> (arg_start_date args = Some s \<or> arg_end_date args = Some s)"
  from assms(2) have bad: "isl (strptime_ymd s)" by simp
  from a bad show "\<exists>msg. analyze_channel_validation args = Some (400, msg)"
    by (auto simp add: analyze_channel_validation_def truthy_def)
next
  show "filter_videos_by_date c (Some s) ed items =
           ((''Warning: Invalid start_date format. Expected YYYY-MM-DD, got '' @ s) #
              fst (convert_end_date ed),
            Some (filter (\<lambda>i. meets_criteria c None (snd (convert_end_date ed)) (published_at i))
                    (case items of None \<Rightarrow> [] | Some xs \<Rightarrow> xs)))"
    using assms(2)
    by (simp add: filter_videos_by_date_def convert_start_date_bad filter_loop_eq
          split: prod.splits)
next
  show "filter_videos_by_date c sd (Some s) items =
           (fst (convert_start_date sd) @
              [''Warning: Invalid end_date format. Expected YYYY-MM-DD, got '' @ s],
            Some (filter (\<lambda>i. meets_criteria c (snd (convert_start_date sd)) None (published_at i))
                    (case items of None \<Rightarrow> [] | Some xs \<Rightarrow> xs)))"
    using assms(2)
    by (simp add: filter_videos_by_date_def convert_end_date_bad filter_loop_eq
          split: prod.splits)
qed

theorem unparsable_date_rejected_at_boundary_ignored_by_filter_witness:
  "is_ascii ''2024-13-45'' \<and> strptime_ymd ''2024-13-45'' = Inl ValueError \<and>
   (\<exists>msg. analyze_channel_validation
            \<lparr>arg_channel_id = Some ''UC123'', arg_username = None, arg_handle = None,
             arg_days = None, arg_start_date = Some ''2024-13-45'',
             arg_end_date = Some ''2024-01-31''\<rparr> = Some (400, msg)) \<and>
   filter_videos_by_date None (Some ''2024-13-45'') None
     (Some [\<lparr>published_at = ''2023-06-01T00:00:00Z'', video_id = ''a''\<rparr>]) =
   ([''Warning: Invalid start_date format. Expected YYYY-MM-DD, got 2024-13-45''],
    Some [\<lparr>published_at = ''2023-06-01T00:00:00Z'', video_id = ''a''\<rparr>])"
proof -
  have a: "is_ascii ''2024-13-45''"
    by (simp add: is_ascii_def)
  have b: "strptime_ymd ''2024-13-45'' = Inl ValueError"
    by (rule strptime_2024_13_45)
  show ?thesis
    using a b
      unparsable_date_rejected_at_boundary_ignored_by_filter
        [OF a b,
         where args = "\<lparr>arg_channel_id = Some ''UC123'', arg_username = None, arg_handle = None,
             arg_days = None, arg_start_date = Some ''2024-13-45'',
             arg_end_date = Some ''2024-01-31''\<rparr>"
           and c = None and ed = None
           and items = "Some [\<lparr>published_at = ''2023-06-01T00:00:00Z'', video_id = ''a''\<rparr>]"]
    by (simp add: convert_end_date_def meets_criteria_conj)
qed

section \<open>Properties of the statistics aggregator\<close>

lemma bind_err_Inr: "bind_err m f = Inr y \<longleftrightarrow> (\<exists>x. m = Inr x \<and> f x = Inr y)"
  by (cases m) (simp_all add: bind_err_def)

lemma bind_err_Inl: "bind_err m f = Inl e \<longleftrightarrow> (m = Inl e \<or> (\<exists>x. m = Inr x \<and> f x = Inl e))"
  by (cases m) (simp_all add: bind_err_def)

lemma bind_err_simps [simp]: "bind_err (Inr x) f = f x" "bind_err (Inl e) f = Inl e"
  by (simp_all add: bind_err_def)

lemma foldl_add_sum_list: "foldl (+) a xs = a + sum_list xs" for a :: int
  by (induction xs arbitrary: a) simp_all

lemma py_sum_sum_list: "py_sum xs = sum_list xs"
  by (simp add: py_sum_def foldl_add_sum_list)

lemma averages_loop_Inr:
  "averages_loop vs st = Inr st' \<Longrightarrow>
   \<exists>views likes comments.
     gen_counts viewCount vs = Inr views \<and>
     gen_counts likeCount vs = Inr likes \<and>
     gen_counts commentCount vs = Inr comments \<and>
     st' = \<lparr>sum_views = sum_views st + sum_list views,
            sum_likes = sum_likes st + sum_list likes,
            sum_comments = sum_comments st + sum_list comments,
            sum_duration_seconds =
              sum_duration_seconds st + sum_list (map (\<lambda>v. duration_seconds_of (duration v)) vs),
            view_counts = view_counts st @ views\<rparr>"
proof (induction vs arbitrary: st)
  case Nil
  then show ?case by auto
next
  case (Cons v vs)
  from Cons.prems obtain a b c where
    a: "get_count (viewCount v) = Inr a" and b: "get_count (likeCount v) = Inr b" and
    c: "get_count (commentCount v) = Inr c" and
    rest: "averages_loop vs
       \<lparr>sum_views = sum_views st + a, sum_likes = sum_likes st + b,
        sum_comments = sum_comments st + c,
        sum_duration_seconds = sum_duration_seconds st + duration_seconds_of (duration v),
        view_counts = view_counts st @ [a]\<rparr> = Inr st'"
    by (auto simp add: bind_err_Inr)
  from Cons.IH [OF rest] a b c show ?case
    by (auto simp add: algebra_simps)
qed

lemma averages_loop_total:
  "gen_counts viewCount vs = Inr views \<Longrightarrow> gen_counts likeCount vs = Inr likes \<Longrightarrow>
   gen_counts commentCount vs = Inr comments \<Longrightarrow> \<exists>st'. averages_loop vs st = Inr st'"
proof (induction vs arbitrary: st views likes comments)
  case Nil
  then show ?case by simp
next
  case (Cons v vs)
  then show ?case
    by (auto simp add: bind_err_Inr)
qed

lemma gen_counts_length: "gen_counts key vs = Inr ns \<Longrightarrow> length ns = length vs"
  by (induction vs arbitrary: ns) (auto simp add: bind_err_Inr)

lemma extract_video_metrics_Some:
  assumes "extract_video_metrics videos = Inr (Some vm)"
  shows "\<exists>views likes comments.
     videos \<noteq> [] \<and>
     gen_counts viewCount videos = Inr views \<and>
     gen_counts likeCount videos = Inr likes \<and>
     gen_counts commentCount videos = Inr comments \<and>
     analyzed_videos_count vm = length videos \<and>
     total_views vm = sum_list views \<and>
     true_div (sum_list views) (int (length videos)) = Inr (video_metrics.avg_views vm) \<and>
     true_div (sum_list likes) (int (length videos)) = Inr (video_metrics.avg_likes vm) \<and>
     true_div (sum_list comments) (int (length videos)) = Inr (video_metrics.avg_comments vm) \<and>
     (if sum_list views > 0 then true_div (sum_list likes + sum_list comments) (sum_list views)
      else Inr 0) = Inr (video_metrics.engagement_rate vm) \<and>
     py_max views = Inr (video_metrics.max_views vm) \<and>
     py_min views = Inr (video_metrics.min_views vm)"
proof -
  from assms have ne: "videos \<noteq> []"
    by (auto simp add: extract_video_metrics_def split: if_splits)
  with assms show ?thesis
    unfolding extract_video_metrics_def
    by (simp add: bind_err_Inr Let_def py_sum_sum_list) force
qed

lemma calculate_video_averages_Inr:
  assumes "calculate_video_averages videos = Inr va" and "videos \<noteq> []"
  shows "\<exists>views likes comments.
     gen_counts viewCount videos = Inr views \<and>
     gen_counts likeCount videos = Inr likes \<and>
     gen_counts commentCount videos = Inr comments \<and>
     count va = length videos \<and>
     true_div (sum_list views) (int (length videos)) = Inr (avg_views va) \<and>
     true_div (sum_list likes) (int (length videos)) = Inr (avg_likes va) \<and>
     true_div (sum_list comments) (int (length videos)) = Inr (avg_comments va) \<and>
     true_div (sum_list (map (\<lambda>v. duration_seconds_of (duration v)) videos))
       (int (length videos)) = Inr (avg_duration_seconds va) \<and>
     (if sum_list views > 0 then true_div (sum_list likes + sum_list comments) (sum_list views)
      else Inr 0) = Inr (engagement_rate va) \<and>
     (if sum_list views > 0 then true_div (sum_list likes) (sum_list views) else Inr 0) =
       Inr (like_to_view_ratio va) \<and>
     (if sum_list views > 0 then true_div (sum_list comments) (sum_list views) else Inr 0) =
       Inr (comment_to_view_ratio va) \<and>
     py_max views = Inr (max_views va) \<and>
     py_min views = Inr (min_views va)"
proof -
  from assms obtain st where
    loop: "averages_loop videos
             \<lparr>sum_views = 0, sum_likes = 0, sum_comments = 0, sum_duration_seconds = 0,
              view_counts = []\<rparr> = Inr st"
    by (auto simp add: calculate_video_averages_def bind_err_Inr)
  from averages_loop_Inr [OF loop] obtain views likes comments where
    g: "gen_counts viewCount videos = Inr views" "gen_counts likeCount videos = Inr likes"
       "gen_counts commentCount videos = Inr comments" and
    st: "st = \<lparr>sum_views = sum_list views, sum_likes = sum_list likes,
               sum_comments = sum_list comments,
               sum_duration_seconds = sum_list (map (\<lambda>v. duration_seconds_of (duration v)) videos),
               view_counts = views\<rparr>"
    by auto
  have len: "length views = length videos"
    using g(1) by (rule gen_counts_length)
  from len assms(2) have vne: "views \<noteq> []"
    by auto
  from assms loop show ?thesis
    unfolding calculate_video_averages_def
    by (auto simp add: bind_err_Inr Let_def st g vne split: if_splits)
qed

lemma extract_account_metrics_video_metrics:
  assumes "extract_account_metrics data = Inr m" and "video_stats data = Some videos"
    and "video_metrics m = Some vm"
  shows "extract_video_metrics videos = Inr (Some vm)"
  using assms
  by (auto simp add: extract_account_metrics_def bind_err_Inr Let_def split: list.splits)

lemma int_of_str_not_zero_division: "int_of_str s \<noteq> Inl ZeroDivisionError"
  by (simp add: int_of_str_def Let_def split: prod.splits option.splits)

lemma get_count_not_zero_division: "get_count v \<noteq> Inl ZeroDivisionError"
  by (simp add: get_count_def py_int_def int_of_str_not_zero_division
        split: option.splits json_value.splits)

lemma gen_counts_not_zero_division: "gen_counts key vs \<noteq> Inl ZeroDivisionError"
  by (induction vs) (auto simp add: bind_err_Inl get_count_not_zero_division)

lemma averages_loop_not_zero_division: "averages_loop vs st \<noteq> Inl ZeroDivisionError"
  by (induction vs arbitrary: st) (auto simp add: bind_err_Inl get_count_not_zero_division)

lemma true_div_zero_division: "true_div a b = Inl ZeroDivisionError \<longleftrightarrow> b = 0"
  by (simp add: true_div_def Let_def)

lemma py_max_not_zero_division: "py_max xs \<noteq> Inl ZeroDivisionError"
  by (simp add: py_max_def split: list.splits)

lemma py_min_not_zero_division: "py_min xs \<noteq> Inl ZeroDivisionError"
  by (simp add: py_min_def split: list.splits)

lemmas not_zero_division =
  get_count_not_zero_division gen_counts_not_zero_division averages_loop_not_zero_division
  true_div_zero_division py_max_not_zero_division py_min_not_zero_division


lemma extract_video_metrics_not_zero_division:
  "extract_video_metrics videos \<noteq> Inl ZeroDivisionError"
  by (auto simp add: extract_video_metrics_def bind_err_Inl Let_def not_zero_division
        split: if_splits)

lemma extract_account_metrics_not_zero_division:
  "extract_account_metrics data \<noteq> Inl ZeroDivisionError"
  by (auto simp add: extract_account_metrics_def bind_err_Inl Let_def not_zero_division
        extract_video_metrics_not_zero_division split: list.splits option.splits)

lemmas int_defs =
  int_of_str_def strip_def int_literal_def is_space_def is_digit_def in_range_def digit_val_def
  py_int_def get_count_def

lemmas div_defs = quotient_exponent_def round_half_even_def bit_length.simps

lemmas duration_defs =
  parse_duration_def duration_hours_def duration_minutes_def duration_secs_def py_index_def

text \<open>
  C2 (as stated).  For a channel whose video list is empty \<^verbatim>\<open>extract_account_metrics\<close> sets
  no \<^verbatim>\<open>'video_metrics'\<close> entry at all, so the summary holds no count and no averages, zero
  or otherwise.
\<close>

theorem empty_collection_summary_counterexample:
  "extract_account_metrics
     \<lparr>channel_items = [\<lparr>resource_id = Some ''UC123'', snippet_title = Some ''News'',
                        subscriberCount = Some (JStr ''10''), videoCount = Some (JStr ''0''),
                        channel_viewCount = Some (JStr ''0'')\<rparr>],
      video_stats = Some []\<rparr> =
   Inr \<lparr>channel_info = Some \<lparr>info_id = ''UC123'', title = ''News'', subscriber_count = 10,
                              video_count = 0, channel_total_views = 0\<rparr>,
        video_metrics = None, video_averages = None, external_links = None\<rparr>"
  by (simp add: extract_account_metrics_def extract_video_metrics_def int_defs)

text \<open>
  C2 (amended).  For the empty video collection \<^verbatim>\<open>calculate_video_averages\<close> returns the
  all-zero result, and \<^verbatim>\<open>extract_account_metrics\<close> produces no video-metrics entry; neither
  raises a division error.
\<close>

theorem empty_collection_results:
  "calculate_video_averages [] =
     Inr \<lparr>count = 0, avg_views = 0, avg_likes = 0, avg_comments = 0, engagement_rate = 0,
          max_views = 0, min_views = 0, avg_duration_seconds = 0, like_to_view_ratio = 0,
          comment_to_view_ratio = 0\<rparr> \<and>
   extract_video_metrics [] = Inr None \<and>
   (video_stats data = Some [] \<and> extract_account_metrics data = Inr m \<longrightarrow>
      video_metrics m = None) \<and>
   extract_account_metrics data \<noteq> Inl ZeroDivisionError"
proof (intro conjI impI)
  show "calculate_video_averages [] =
     Inr \<lparr>count = 0, avg_views = 0, avg_likes = 0, avg_comments = 0, engagement_rate = 0,
          max_views = 0, min_views = 0, avg_duration_seconds = 0, like_to_view_ratio = 0,
          comment_to_view_ratio = 0\<rparr>"
    by (simp add: calculate_video_averages_def)
next
  show "extract_video_metrics [] = Inr None"
    by (simp add: extract_video_metrics_def)
next
  assume "video_stats data = Some [] \<and> extract_account_metrics data = Inr m"
  then show "video_metrics m = None"
    by (auto simp add: extract_account_metrics_def extract_video_metrics_def bind_err_Inr Let_def
          split: list.splits)
next
  show "extract_account_metrics data \<noteq> Inl ZeroDivisionError"
    by (rule extract_account_metrics_not_zero_division)
qed

theorem empty_collection_results_witness:
  "video_metrics
     \<lparr>channel_info = Some \<lparr>info_id = ''UC123'', title = ''News'', subscriber_count = 10,
                            video_count = 0, channel_total_views = 0\<rparr>,
      video_metrics = None, video_averages = None, external_links = None\<rparr> = None \<and>
   extract_account_metrics
     \<lparr>channel_items = [\<lparr>resource_id = Some ''UC123'', snippet_title = Some ''News'',
                        subscriberCount = Some (JStr ''10''), videoCount = Some (JStr ''0''),
                        channel_viewCount = Some (JStr ''0'')\<rparr>],
      video_stats = Some []\<rparr> \<noteq> Inl ZeroDivisionError"
  using empty_collection_results
    [of "\<lparr>channel_items = [\<lparr>resource_id = Some ''UC123'', snippet_title = Some ''News'',
                        subscriberCount = Some (JStr ''10''), videoCount = Some (JStr ''0''),
                        channel_viewCount = Some (JStr ''0'')\<rparr>],
      video_stats = Some []\<rparr>"
        "\<lparr>channel_info = Some \<lparr>info_id = ''UC123'', title = ''News'', subscriber_count = 10,
                            video_count = 0, channel_total_views = 0\<rparr>,
      video_metrics = None, video_averages = None, external_links = None\<rparr>"]
  by simp


lemma true_div_pos:
  assumes "0 < a" and "0 < b"
    and "quotient_exponent (nat a) (nat b) = k"
    and "max (k - 52) (- 1074) = e"
    and "round_half_even (nat a * 2 ^ nat (- e)) (nat b * 2 ^ nat e) = m"
    and "(of_nat m :: rat) * 2 ^ nat e / 2 ^ nat (- e) = x"
    and "x < 2 ^ 1024"
  shows "true_div a b = Inr x"
proof -
  from assms(1,2) have s: "a \<noteq> 0" "b \<noteq> 0" "nat \<bar>a\<bar> = nat a" "nat \<bar>b\<bar> = nat b"
    "(a < 0) = (b < 0)"
    by simp_all
  from assms(7) have "\<not> 2 ^ 1024 \<le> x"
    by simp
  with s assms(3-6) show ?thesis
    unfolding true_div_def float_quotient_def Let_def by simp
qed




lemma true_div_0: "b \<noteq> 0 \<Longrightarrow> true_div 0 b = Inr 0"
  by (simp add: true_div_def)





lemma true_div_160_3: "true_div 160 3 = Inr (7505999378950827 / 140737488355328)"
  by (rule true_div_pos [where k = "5" and e = "- 47" and m = 7505999378950827])
    (simp_all add: quotient_exponent_def bit_length.simps round_half_even_def Let_def)

lemma true_div_16_3: "true_div 16 3 = Inr (6004799503160661 / 1125899906842624)"
  by (rule true_div_pos [where k = "2" and e = "- 50" and m = 6004799503160661])
    (simp_all add: quotient_exponent_def bit_length.simps round_half_even_def Let_def)

lemma true_div_3_3: "true_div 3 3 = Inr (1)"
  by (rule true_div_pos [where k = "0" and e = "- 52" and m = 4503599627370496])
    (simp_all add: quotient_exponent_def bit_length.simps round_half_even_def Let_def)

lemma true_div_19_160: "true_div 19 160 = Inr (4278419646001971 / 36028797018963968)"
  by (rule true_div_pos [where k = "- 4" and e = "- 56" and m = 8556839292003942])
    (simp_all add: quotient_exponent_def bit_length.simps round_half_even_def Let_def)

lemma true_div_3913_3: "true_div 3913 3 = Inr (5736518665983317 / 4398046511104)"
  by (rule true_div_pos [where k = "10" and e = "- 42" and m = 5736518665983317])
    (simp_all add: quotient_exponent_def bit_length.simps round_half_even_def Let_def)

lemma true_div_16_160: "true_div 16 160 = Inr (3602879701896397 / 36028797018963968)"
  by (rule true_div_pos [where k = "- 4" and e = "- 56" and m = 7205759403792794])
    (simp_all add: quotient_exponent_def bit_length.simps round_half_even_def Let_def)

lemma true_div_3_160: "true_div 3 160 = Inr (5404319552844595 / 288230376151711744)"
  by (rule true_div_pos [where k = "- 6" and e = "- 58" and m = 5404319552844595])
    (simp_all add: quotient_exponent_def bit_length.simps round_half_even_def Let_def)

lemma parse_duration_PT5M13S: "parse_duration ''PT5M13S'' = Inr 313"
  by (simp add: duration_defs int_defs)

lemma parse_duration_PT1H: "parse_duration ''PT1H'' = Inr 3600"
  by (simp add: duration_defs int_defs)

lemma parse_duration_PT: "parse_duration ''PT'' = Inr 0"
  by (simp add: duration_defs int_defs)

lemma scenario_counts:
  "gen_counts viewCount scenario_videos = Inr [100, 50, 10]"
  "gen_counts likeCount scenario_videos = Inr [10, 5, 1]"
  "gen_counts commentCount scenario_videos = Inr [2, 1, 0]"
  by (simp_all add: scenario_videos_def int_defs)

lemma scenario_summary:
  "extract_video_metrics scenario_videos = Inr (Some scenario_summary)"
proof -
  have "scenario_videos \<noteq> []" "length scenario_videos = 3"
    by (simp_all add: scenario_videos_def)
  then show ?thesis
    unfolding extract_video_metrics_def scenario_counts scenario_summary_def
    by (simp add: py_sum_def py_max_def py_min_def true_div_160_3 true_div_16_3 true_div_3_3
        true_div_19_160)
qed

lemma scenario_averages:
  "calculate_video_averages scenario_videos = Inr scenario_averages"
  unfolding scenario_videos_def scenario_averages_def
  by (simp add: calculate_video_averages_def int_defs duration_seconds_of_def
        parse_duration_PT5M13S parse_duration_PT1H parse_duration_PT
        true_div_160_3 true_div_16_3 true_div_3_3 true_div_19_160 true_div_3913_3
        true_div_16_160 true_div_3_160 py_max_def py_min_def)

lemma scenario_metrics:
  "extract_account_metrics \<lparr>channel_items = [scenario_channel], video_stats = Some scenario_videos\<rparr> =
     Inr \<lparr>channel_info = Some scenario_info, video_metrics = Some scenario_summary,
          video_averages = None, external_links = None\<rparr>"
  by (simp add: extract_account_metrics_def scenario_summary)
    (simp add: scenario_channel_def scenario_info_def int_defs)









lemma round_half_even_ge:
  assumes "0 < d" and "N * d \<le> n"
  shows "N \<le> round_half_even n d"
proof -
  from assms have "N \<le> n div d"
    by (simp add: less_eq_div_iff_mult_less_eq)
  then show ?thesis
    by (simp add: round_half_even_def Let_def)
qed

lemma round_half_even_le:
  assumes "0 < d" and "n \<le> N * d"
  shows "round_half_even n d \<le> N"
proof (cases "n = N * d")
  case True
  with assms(1) show ?thesis
    by (simp add: round_half_even_def Let_def)
next
  case False
  with assms(2) have "n < N * d"
    by simp
  with assms(1) have "n div d < N"
    by (simp add: div_less_iff_less_mult)
  then show ?thesis
    by (simp add: round_half_even_def Let_def)
qed

lemma bit_length_bounds:
  "0 < n \<Longrightarrow> 2 ^ (bit_length n - 1) \<le> n \<and> n < 2 ^ bit_length n"
proof (induction n rule: bit_length.induct)
  case (1 n)
  show ?case
  proof (cases "n div 2 = 0")
    case True
    with "1.prems" have "n = 1"
      by (simp add: div_eq_0_iff) 
    then show ?thesis
      by (simp add: bit_length.simps)
  next
    case False
    with "1.IH" "1.prems" have ih: "2 ^ (bit_length (n div 2) - 1) \<le> n div 2"
      "n div 2 < 2 ^ bit_length (n div 2)"
      by simp_all
    from False have pos: "0 < bit_length (n div 2)"
      by (simp add: bit_length.simps [of "n div 2"])
    have bl: "bit_length n = Suc (bit_length (n div 2))"
      using "1.prems" by (simp add: bit_length.simps [of n])
    from pos have "(2::nat) ^ bit_length (n div 2) = 2 * 2 ^ (bit_length (n div 2) - 1)"
      by (cases "bit_length (n div 2)") simp_all
    with ih have "2 ^ bit_length (n div 2) \<le> n"
      by linarith
    moreover from ih(2) have "n < 2 * 2 ^ bit_length (n div 2)"
      by linarith
    ultimately show ?thesis
      by (simp add: bl)
  qed
qed

lemma quotient_exponent_lower:
  assumes "0 < n" and "0 < d" and "0 \<le> quotient_exponent n d"
  shows "d * 2 ^ nat (quotient_exponent n d) \<le> n"
proof -
  define k where "k = int (bit_length n) - int (bit_length d)"
  show ?thesis
  proof (cases "d * 2 ^ nat k \<le> n * 2 ^ nat (- k)")
    case True
    then have q: "quotient_exponent n d = k"
      by (simp add: quotient_exponent_def k_def Let_def)
    with assms(3) have "nat (- k) = 0"
      by simp
    with True q show ?thesis
      by simp
  next
    case False
    then have q: "quotient_exponent n d = k - 1"
      by (simp add: quotient_exponent_def k_def Let_def)
    with assms(3) have k1: "1 \<le> k"
      by simp
    from bit_length_bounds [OF assms(1)] have n: "2 ^ (bit_length n - 1) \<le> n"
      by simp
    from bit_length_bounds [OF assms(2)] have d: "d < 2 ^ bit_length d"
      by simp
    from k1 have e: "bit_length n - 1 = bit_length d + nat (k - 1)"
      by (simp add: k_def)
    have "d * 2 ^ nat (k - 1) \<le> 2 ^ bit_length d * 2 ^ nat (k - 1)"
      using d by (simp add: mult_le_mono1)
    also have "\<dots> = 2 ^ (bit_length n - 1)"
      by (simp only: e power_add)
    also have "\<dots> \<le> n"
      by (rule n)
    finally show ?thesis
      by (simp add: q)
  qed
qed

text \<open>
  The rounded magnitude \<open>m \<cdot> 2\<^sup>e\<close> of a positive quotient \<open>n / d\<close> stays between any two
  integers of at most 53 bits that enclose the quotient.
\<close>

lemma rounded_quotient_lower:
  assumes "0 < n" and "0 < d" and "L * d \<le> n" and "L \<le> 2 ^ 53"
    and "e = max (quotient_exponent n d - 52) (- 1074)"
    and "m = round_half_even (n * 2 ^ nat (- e)) (d * 2 ^ nat e)"
  shows "L * 2 ^ nat (- e) \<le> m * 2 ^ nat e"
proof (cases "e \<le> 0")
  case True
  then have i: "nat e = 0"
    by simp
  have "L * 2 ^ nat (- e) * d \<le> n * 2 ^ nat (- e)"
    using assms(3) by (simp add: mult.commute mult.left_commute)
  with assms(2) have "L * 2 ^ nat (- e) \<le> round_half_even (n * 2 ^ nat (- e)) d"
    by (intro round_half_even_ge) simp_all
  with i show ?thesis
    by (simp add: assms(6))
next
  case False
  with assms(5) have e: "e = quotient_exponent n d - 52" and pos: "0 < e"
    by simp_all
  then have k: "0 \<le> quotient_exponent n d" "nat (quotient_exponent n d) = 52 + nat e"
    by simp_all
  from quotient_exponent_lower [OF assms(1,2) k(1)] have "d * 2 ^ (52 + nat e) \<le> n"
    by (simp add: k(2))
  then have "2 ^ 52 * (d * 2 ^ nat e) \<le> n"
    by (simp add: power_add mult.commute mult.left_commute)
  with assms(2) have "2 ^ 52 \<le> round_half_even n (d * 2 ^ nat e)"
    by (intro round_half_even_ge) simp_all
  moreover from pos have j: "nat (- e) = 0"
    by simp
  ultimately have m: "2 ^ 52 \<le> m"
    by (simp add: assms(6))
  from pos have "(2::nat) ^ 1 \<le> 2 ^ nat e"
    by (intro power_increasing) simp_all
  with m have "2 ^ 52 * 2 ^ 1 \<le> m * 2 ^ nat e"
    by (intro mult_le_mono) simp_all
  with assms(4) j show ?thesis
    by simp
qed

lemma rounded_quotient_upper:
  assumes "0 < n" and "0 < d" and "n \<le> U * d" and "U \<le> 2 ^ 53"
    and "e = max (quotient_exponent n d - 52) (- 1074)"
    and "m = round_half_even (n * 2 ^ nat (- e)) (d * 2 ^ nat e)"
  shows "m * 2 ^ nat e \<le> U * 2 ^ nat (- e)"
proof (cases "e \<le> 0")
  case True
  then have i: "nat e = 0"
    by simp
  have "n * 2 ^ nat (- e) \<le> U * 2 ^ nat (- e) * d"
    using assms(3) by (simp add: mult.commute mult.left_commute)
  with assms(2) have "round_half_even (n * 2 ^ nat (- e)) d \<le> U * 2 ^ nat (- e)"
    by (intro round_half_even_le) simp_all
  with i show ?thesis
    by (simp add: assms(6))
next
  case False
  with assms(5) have e: "e = quotient_exponent n d - 52" and pos: "0 < e"
    by simp_all
  then have k: "0 \<le> quotient_exponent n d" "nat (quotient_exponent n d) = 52 + nat e"
    by simp_all
  from pos have j: "nat (- e) = 0"
    by simp
  from quotient_exponent_lower [OF assms(1,2) k(1)] have "d * 2 ^ (52 + nat e) \<le> n"
    by (simp add: k(2))
  then have "d * 2 ^ (52 + nat e) \<le> U * d"
    using assms(3) by (rule order_trans)
  then have "d * 2 ^ (52 + nat e) \<le> d * U"
    by (simp only: mult.commute)
  with assms(2) have "2 ^ (52 + nat e) \<le> U"
    by (simp only: nat_mult_le_cancel1)
  then have "(2::nat) ^ (52 + nat e) \<le> 2 ^ 53"
    using assms(4) by (rule order_trans)
  then have "52 + nat e \<le> 53"
    by (rule power_le_imp_le_exp [rotated]) simp
  with pos have i: "nat e = 1"
    by simp
  with \<open>2 ^ (52 + nat e) \<le> U\<close> assms(4) have U: "U = 2 ^ 53"
    by simp
  from assms(3) have "n \<le> 2 ^ 52 * (d * 2 ^ nat e)"
    by (simp add: U i)
  with assms(2) have "round_half_even n (d * 2 ^ nat e) \<le> 2 ^ 52"
    by (intro round_half_even_le) simp_all
  with j have "m \<le> 2 ^ 52"
    by (simp add: assms(6))
  then show ?thesis
    by (simp add: i j U)
qed

lemma true_div_pos_between:
  fixes a b L U :: int
  assumes "0 < a" and "0 < b" and "L * b \<le> a" and "a \<le> U * b"
    and "L \<le> 2 ^ 53" and "U \<le> 2 ^ 53"
  shows "\<exists>x. true_div a b = Inr x \<and> of_int L \<le> x \<and> x \<le> of_int U"
proof -
  define n d where "n = nat a" and "d = nat b"
  define e where "e = max (quotient_exponent n d - 52) (- 1074)"
  define m where "m = round_half_even (n * 2 ^ nat (- e)) (d * 2 ^ nat e)"
  define x :: rat where "x = of_nat m * 2 ^ nat e / 2 ^ nat (- e)"
  have fq: "float_quotient n d = x"
    by (simp add: float_quotient_def Let_def x_def m_def e_def)
  from assms(1,2) have pos: "0 < n" "0 < d" and ab: "a = int n" "b = int d"
    by (simp_all add: n_def d_def)
  have x0: "0 \<le> x"
    by (simp add: x_def)
  have Upos: "0 < U"
  proof (rule ccontr)
    assume "\<not> 0 < U"
    then have "U * b \<le> 0"
      using assms(2) by (simp add: mult_le_0_iff)
    with assms(1,4) show False
      by simp
  qed
  have "int n \<le> int (nat U * d)"
    using assms(4) Upos by (simp add: ab)
  then have nU: "n \<le> nat U * d"
    by (simp only: of_nat_le_iff)
  have "nat U \<le> 2 ^ 53"
    using assms(6) Upos by (simp add: nat_le_iff)
  from rounded_quotient_upper [OF pos nU this e_def m_def]
  have "(of_nat (m * 2 ^ nat e) :: rat) \<le> of_nat (nat U * 2 ^ nat (- e))"
    by (simp only: of_nat_le_iff)
  then have upper: "x \<le> of_int U"
    using Upos by (simp add: x_def pos_divide_le_eq)
  have lower: "of_int L \<le> x"
  proof (cases "L \<le> 0")
    case True
    then have "(of_int L :: rat) \<le> 0"
      by simp
    then show ?thesis
      using x0 by (rule order_trans)
  next
    case False
    then have Lpos: "0 < L"
      by simp
    have "int (nat L * d) \<le> int n"
      using assms(3) Lpos by (simp add: ab)
    then have nL: "nat L * d \<le> n"
      by (simp only: of_nat_le_iff)
    have "nat L \<le> 2 ^ 53"
      using assms(5) Lpos by (simp add: nat_le_iff)
    from rounded_quotient_lower [OF pos nL this e_def m_def]
    have "(of_nat (nat L * 2 ^ nat (- e)) :: rat) \<le> of_nat (m * 2 ^ nat e)"
      by (simp only: of_nat_le_iff)
    then show ?thesis
      using Lpos by (simp add: x_def pos_le_divide_eq)
  qed
  have "of_int U \<le> (2 ^ 53 :: rat)"
    using assms(6) by (metis of_int_le_iff of_int_numeral of_int_power)
  with upper have "x \<le> 2 ^ 53"
    by (rule order_trans)
  moreover have "(2 ^ 53 :: rat) < 2 ^ 1024"
    by simp
  ultimately have "\<not> 2 ^ 1024 \<le> x"
    by simp
  moreover from assms(1,2) have "nat \<bar>a\<bar> = n" "nat \<bar>b\<bar> = d" "a \<noteq> 0" "b \<noteq> 0"
    "(a < 0) = (b < 0)"
    by (simp_all add: n_def d_def)
  ultimately have "true_div a b = Inr x"
    by (simp add: true_div_def fq)
  with lower upper show ?thesis
    by blast
qed

lemma true_div_minus:
  assumes "a \<noteq> 0" and "b \<noteq> 0"
  shows "true_div (- a) b = (case true_div a b of Inl err \<Rightarrow> Inl err | Inr x \<Rightarrow> Inr (- x))"
proof -
  from assms have "((- a < 0) = (b < 0)) = (\<not> ((a < 0) = (b < 0)))"
    by auto
  with assms show ?thesis
    by (simp add: true_div_def Let_def)
qed

lemma true_div_between:
  fixes a b L U :: int
  assumes "0 < b" and "L * b \<le> a" and "a \<le> U * b"
    and "- (2 ^ 53) \<le> L" and "U \<le> 2 ^ 53"
  shows "\<exists>x. true_div a b = Inr x \<and> of_int L \<le> x \<and> x \<le> of_int U"
proof -
  have LU: "L \<le> U"
  proof -
    from assms(2,3) have "L * b \<le> U * b"
      by (rule order_trans)
    with assms(1) show ?thesis
      by (simp add: mult_le_cancel_right)
  qed
  consider "0 < a" | "a = 0" | "a < 0"
    by linarith
  then show ?thesis
  proof cases
    case 1
    from LU assms(5) have "L \<le> 2 ^ 53"
      by (rule order_trans)
    from true_div_pos_between [OF 1 assms(1,2,3) this assms(5)] show ?thesis .
  next
    case 2
    with assms(1,2,3) have "L \<le> 0" "0 \<le> U"
      by (simp_all add: mult_le_0_iff zero_le_mult_iff)
    with 2 assms(1) show ?thesis
      by (simp add: true_div_def)
  next
    case 3
    then have p: "0 < - a"
      by simp
    from assms(2,3) have b: "(- U) * b \<le> - a" "- a \<le> (- L) * b"
      by simp_all
    from assms(4) have l: "- L \<le> 2 ^ 53"
      by simp
    from LU assms(4) have u: "- U \<le> 2 ^ 53"
      by simp
    from true_div_pos_between [OF p assms(1) b u l] obtain x where
      x: "true_div (- a) b = Inr x" "of_int (- U) \<le> x" "x \<le> of_int (- L)"
      by blast
    from 3 assms(1) have "true_div (- (- a)) b =
        (case true_div (- a) b of Inl err \<Rightarrow> Inl err | Inr x \<Rightarrow> Inr (- x))"
      by (intro true_div_minus) simp_all
    with x(1) have "true_div a b = Inr (- x)"
      by simp
    moreover from x(2,3) have "of_int L \<le> - x" "- x \<le> of_int U"
      by simp_all
    ultimately show ?thesis
      by blast
  qed
qed

lemma foldl_max_bounds:
  fixes x :: int
  shows "x \<le> foldl max x r \<and> (\<forall>v \<in> set r. v \<le> foldl max x r) \<and> foldl max x r \<in> set (x # r)"
proof (induction r arbitrary: x)
  case Nil
  show ?case by simp
next
  case (Cons y r)
  from Cons.IH [of "max x y"] show ?case
    by (auto simp add: max_def split: if_splits)
qed

lemma foldl_min_bounds:
  fixes x :: int
  shows "foldl min x r \<le> x \<and> (\<forall>v \<in> set r. foldl min x r \<le> v) \<and> foldl min x r \<in> set (x # r)"
proof (induction r arbitrary: x)
  case Nil
  show ?case by simp
next
  case (Cons y r)
  from Cons.IH [of "min x y"] show ?case
    by (auto simp add: min_def split: if_splits)
qed

lemma py_max_bounds:
  assumes "py_max xs = Inr mx"
  shows "(\<forall>v \<in> set xs. v \<le> mx) \<and> mx \<in> set xs"
proof (cases xs)
  case Nil
  with assms show ?thesis
    by (simp add: py_max_def)
next
  case (Cons x r)
  with assms have "mx = foldl max x r"
    by (simp add: py_max_def)
  with foldl_max_bounds [of x r] Cons show ?thesis
    by auto
qed

lemma py_min_bounds:
  assumes "py_min xs = Inr mn"
  shows "(\<forall>v \<in> set xs. mn \<le> v) \<and> mn \<in> set xs"
proof (cases xs)
  case Nil
  with assms show ?thesis
    by (simp add: py_min_def)
next
  case (Cons x r)
  with assms have "mn = foldl min x r"
    by (simp add: py_min_def)
  with foldl_min_bounds [of x r] Cons show ?thesis
    by auto
qed

lemma sum_list_lower:
  fixes xs :: "int list"
  shows "\<forall>v \<in> set xs. L \<le> v \<Longrightarrow> L * int (length xs) \<le> sum_list xs"
  by (induction xs) (auto simp add: algebra_simps)

lemma sum_list_upper:
  fixes xs :: "int list"
  shows "\<forall>v \<in> set xs. v \<le> U \<Longrightarrow> sum_list xs \<le> U * int (length xs)"
  by (induction xs) (auto simp add: algebra_simps)

lemma mean_between_extrema:
  assumes "xs \<noteq> []" and "\<forall>v \<in> set xs. \<bar>v\<bar> \<le> 2 ^ 53"
    and "py_min xs = Inr mn" and "py_max xs = Inr mx"
    and "true_div (sum_list xs) (int (length xs)) = Inr avg"
  shows "of_int mn \<le> avg \<and> avg \<le> of_int mx"
proof -
  from py_min_bounds [OF assms(3)] have mn: "\<forall>v \<in> set xs. mn \<le> v" "mn \<in> set xs"
    by simp_all
  from py_max_bounds [OF assms(4)] have mx: "\<forall>v \<in> set xs. v \<le> mx" "mx \<in> set xs"
    by simp_all
  from assms(2) mn(2) have "\<bar>mn\<bar> \<le> 2 ^ 53"
    by blast
  then have l: "- (2 ^ 53) \<le> mn"
    by simp
  from assms(2) mx(2) have "\<bar>mx\<bar> \<le> 2 ^ 53"
    by blast
  then have u: "mx \<le> 2 ^ 53"
    by simp
  from assms(1) have len: "0 < int (length xs)"
    by simp
  from true_div_between [OF len sum_list_lower [OF mn(1)] sum_list_upper [OF mx(1)] l u]
    assms(5) show ?thesis
    by auto
qed

lemma true_div_9007199254740993_1: "true_div 9007199254740993 1 = Inr 9007199254740992"
  by (rule true_div_pos [where k = 53 and e = 1 and m = 4503599627370496])
    (simp_all add: quotient_exponent_def bit_length.simps round_half_even_def Let_def)

text \<open>
  C6 (as stated).  One video with 9007199254740993 views (\<open>2\<^sup>5\<^sup>3 + 1\<close>): the mean is the float
  nearest to that number, 9007199254740992, which is smaller than the minimum, in the
  summary and in the detailed averages alike.
\<close>

theorem mean_below_minimum_counterexample:
  "calculate_video_averages
     [\<lparr>viewCount = Some (JStr ''9007199254740993''), likeCount = Some (JStr ''0''),
       commentCount = Some (JStr ''0''), duration = None\<rparr>] =
     Inr \<lparr>count = 1, avg_views = 9007199254740992, avg_likes = 0, avg_comments = 0,
          engagement_rate = 0, max_views = 9007199254740993, min_views = 9007199254740993,
          avg_duration_seconds = 0, like_to_view_ratio = 0, comment_to_view_ratio = 0\<rparr> \<and>
   extract_video_metrics
     [\<lparr>viewCount = Some (JStr ''9007199254740993''), likeCount = Some (JStr ''0''),
       commentCount = Some (JStr ''0''), duration = None\<rparr>] =
     Inr (Some \<lparr>analyzed_videos_count = 1, avg_views = 9007199254740992,
                max_views = 9007199254740993, min_views = 9007199254740993,
                total_views = 9007199254740993, avg_likes = 0, avg_comments = 0,
                engagement_rate = 0\<rparr>) \<and>
   (9007199254740992 :: rat) < of_int 9007199254740993"
  by (simp add: calculate_video_averages_def extract_video_metrics_def int_defs
        duration_seconds_of_def py_sum_def py_max_def py_min_def true_div_0
        true_div_9007199254740993_1)

text \<open>
  C6 (amended).  For every non-empty collection whose view counts all have magnitude at
  most \<open>2\<^sup>5\<^sup>3\<close> (so that the extrema are exactly representable as floats), the mean of
  the views is computed without error and lies between the minimum and the maximum, and
  the reported values satisfy \<open>min_views \<le> avg_views \<le> max_views\<close>, in the summary and in the
  detailed averages.
\<close>

theorem mean_between_extrema_53_bits:
  assumes "videos \<noteq> []" and "gen_counts viewCount videos = Inr views"
    and "\<forall>v \<in> set views. \<bar>v\<bar> \<le> 2 ^ 53"
  shows "(\<exists>mn mx avg. py_min views = Inr mn \<and> py_max views = Inr mx \<and>
            true_div (py_sum views) (int (length videos)) = Inr avg \<and>
            of_int mn \<le> avg \<and> avg \<le> of_int mx) \<and>
         (calculate_video_averages videos = Inr va \<longrightarrow>
            of_int (min_views va) \<le> avg_views va \<and> avg_views va \<le> of_int (max_views va)) \<and>
         (video_stats data = Some videos \<and> extract_account_metrics data = Inr m \<and>
          video_metrics m = Some vm \<longrightarrow>
            of_int (video_metrics.min_views vm) \<le> video_metrics.avg_views vm \<and>
            video_metrics.avg_views vm \<le> of_int (video_metrics.max_views vm))"
proof (intro conjI impI)
  from assms(1,2) have ne: "views \<noteq> []" and len: "length views = length videos"
    by (auto dest: gen_counts_length)
  show "\<exists>mn mx avg. py_min views = Inr mn \<and> py_max views = Inr mx \<and>
            true_div (py_sum views) (int (length videos)) = Inr avg \<and>
            of_int mn \<le> avg \<and> avg \<le> of_int mx"
  proof -
    from ne obtain mn mx where e: "py_min views = Inr mn" "py_max views = Inr mx"
      by (cases views) (simp_all add: py_min_def py_max_def)
    from py_min_bounds [OF e(1)] have mn: "\<forall>v \<in> set views. mn \<le> v" "mn \<in> set views"
      by simp_all
    from py_max_bounds [OF e(2)] have mx: "\<forall>v \<in> set views. v \<le> mx" "mx \<in> set views"
      by simp_all
    from assms(3) mn(2) have "\<bar>mn\<bar> \<le> 2 ^ 53"
      by blast
    then have l: "- (2 ^ 53) \<le> mn"
      by simp
    from assms(3) mx(2) have "\<bar>mx\<bar> \<le> 2 ^ 53"
      by blast
    then have u: "mx \<le> 2 ^ 53"
      by simp
    from ne have pos: "0 < int (length views)"
      by simp
    from true_div_between [OF pos sum_list_lower [OF mn(1)] sum_list_upper [OF mx(1)] l u]
    obtain avg where "true_div (sum_list views) (int (length views)) = Inr avg"
      "of_int mn \<le> avg" "avg \<le> of_int mx"
      by blast
    with e show ?thesis
      by (auto simp add: py_sum_sum_list len)
  qed
  {
    assume r: "calculate_video_averages videos = Inr va"
    from calculate_video_averages_Inr [OF r assms(1)] assms(2) have
      "true_div (sum_list views) (int (length views)) = Inr (avg_views va)"
      "py_max views = Inr (max_views va)" "py_min views = Inr (min_views va)"
      by (auto simp add: len)
    with mean_between_extrema [OF ne assms(3)]
    have "of_int (min_views va) \<le> avg_views va \<and> avg_views va \<le> of_int (max_views va)"
      by blast
    then show "of_int (min_views va) \<le> avg_views va" "avg_views va \<le> of_int (max_views va)"
      by simp_all
  }
  {
    assume "video_stats data = Some videos \<and> extract_account_metrics data = Inr m \<and>
          video_metrics m = Some vm"
    then have "extract_video_metrics videos = Inr (Some vm)"
      by (auto intro: extract_account_metrics_video_metrics)
    from extract_video_metrics_Some [OF this] assms(2) have
      "true_div (sum_list views) (int (length views)) = Inr (video_metrics.avg_views vm)"
      "py_max views = Inr (video_metrics.max_views vm)"
      "py_min views = Inr (video_metrics.min_views vm)"
      by (auto simp add: len)
    with mean_between_extrema [OF ne assms(3)]
    have "of_int (video_metrics.min_views vm) \<le> video_metrics.avg_views vm \<and>
          video_metrics.avg_views vm \<le> of_int (video_metrics.max_views vm)"
      by blast
    then show "of_int (video_metrics.min_views vm) \<le> video_metrics.avg_views vm"
      "video_metrics.avg_views vm \<le> of_int (video_metrics.max_views vm)"
      by simp_all
  }
qed

theorem mean_between_extrema_53_bits_witness:
  "scenario_videos \<noteq> [] \<and> gen_counts viewCount scenario_videos = Inr [100, 50, 10] \<and>
   calculate_video_averages scenario_videos = Inr scenario_averages \<and>
   of_int (min_views scenario_averages) \<le> avg_views scenario_averages \<and>
   avg_views scenario_averages \<le> of_int (max_views scenario_averages) \<and>
   of_int (video_metrics.min_views scenario_summary) \<le> video_metrics.avg_views scenario_summary \<and>
   video_metrics.avg_views scenario_summary \<le> of_int (video_metrics.max_views scenario_summary)"
proof -
  have a: "scenario_videos \<noteq> []"
    by (simp add: scenario_videos_def)
  have b: "\<forall>v \<in> set [100, 50, 10 :: int]. \<bar>v\<bar> \<le> 2 ^ 53"
    by simp
  from mean_between_extrema_53_bits [OF a scenario_counts(1) b,
      of scenario_averages
         "\<lparr>channel_items = [scenario_channel], video_stats = Some scenario_videos\<rparr>"
         "\<lparr>channel_info = Some scenario_info, video_metrics = Some scenario_summary,
           video_averages = None, external_links = None\<rparr>"
         scenario_summary]
    a scenario_counts(1) scenario_averages scenario_metrics
  show ?thesis
    by simp
qed

section \<open>Properties of the link normalizer\<close>

lemma urlparse_query_nested:
  "urlparse_query
     ''https://www.youtube.com/redirect?q=https://www.youtube.com/redirect?q=https://example.com'' =
   Inr ''q=https://www.youtube.com/redirect?q=https://example.com''"
  by (simp add: urlparse_query_def is_alpha_def is_scheme_char_def in_range_def is_digit_def)

lemma parse_qs_nested:
  "parse_qs ''q=https://www.youtube.com/redirect?q=https://example.com'' =
     [(''q'', [''https://www.youtube.com/redirect?q=https://example.com''])]"
  by (simp add: parse_qs_def parse_qsl_def unquote_plus_def unquote_def)

lemma extract_nested_once:
  "extract_direct_url
     ''https://www.youtube.com/redirect?q=https://www.youtube.com/redirect?q=https://example.com'' =
   ''https://www.youtube.com/redirect?q=https://example.com''"
  by (simp add: extract_direct_url_def urlparse_query_nested parse_qs_nested unquote_def)

lemma urlparse_query_plain:
  "urlparse_query ''https://www.youtube.com/redirect?q=https://example.com'' =
   Inr ''q=https://example.com''"
  by (simp add: urlparse_query_def is_alpha_def is_scheme_char_def in_range_def is_digit_def)

lemma parse_qs_plain:
  "parse_qs ''q=https://example.com'' = [(''q'', [''https://example.com''])]"
  by (simp add: parse_qs_def parse_qsl_def unquote_plus_def unquote_def)

lemma extract_nested_twice:
  "extract_direct_url ''https://www.youtube.com/redirect?q=https://example.com'' =
   ''https://example.com''"
  by (simp add: extract_direct_url_def urlparse_query_plain parse_qs_plain unquote_def)

text \<open>
  C4 (as stated).  A redirect link whose target is again a redirect link: the first
  application yields the inner redirect link, the second application yields its target.
\<close>

theorem extract_direct_url_idempotent_counterexample:
  "extract_direct_url
     (extract_direct_url
        ''https://www.youtube.com/redirect?q=https://www.youtube.com/redirect?q=https://example.com'') =
     ''https://example.com'' \<and>
   extract_direct_url
     ''https://www.youtube.com/redirect?q=https://www.youtube.com/redirect?q=https://example.com'' =
     ''https://www.youtube.com/redirect?q=https://example.com'' \<and>
   extract_direct_url
     (extract_direct_url
        ''https://www.youtube.com/redirect?q=https://www.youtube.com/redirect?q=https://example.com'') \<noteq>
   extract_direct_url
     ''https://www.youtube.com/redirect?q=https://www.youtube.com/redirect?q=https://example.com''"
  by (simp add: extract_nested_once extract_nested_twice)

text \<open>
  C4 (amended).  A URL that does not contain \<^verbatim>\<open>youtube.com/redirect\<close> is returned unchanged,
  so \<^verbatim>\<open>extract_direct_url\<close> is idempotent on every URL whose resolved form no longer
  contains that marker.
\<close>

theorem extract_direct_url_idempotent_when_resolved:
  "(\<not> contains ''youtube.com/redirect'' u \<longrightarrow> extract_direct_url u = u) \<and>
   (\<not> contains ''youtube.com/redirect'' (extract_direct_url u) \<longrightarrow>
      extract_direct_url (extract_direct_url u) = extract_direct_url u)"
  by (simp add: extract_direct_url_def)

lemma urlparse_query_encoded:
  "urlparse_query ''https://www.youtube.com/redirect?q=https%3A%2F%2Fexample.com'' =
   Inr ''q=https%3A%2F%2Fexample.com''"
  by (simp add: urlparse_query_def is_alpha_def is_scheme_char_def in_range_def is_digit_def)

lemma unquote_encoded: "unquote ''https%3A%2F%2Fexample.com'' = ''https://example.com''"
  by (simp add: unquote_def unquote_to_bytes_def unquote_item_def hex_val_def in_range_def
        is_digit_def char_of_def bit_simps)

lemma parse_qs_encoded:
  "parse_qs ''q=https%3A%2F%2Fexample.com'' = [(''q'', [''https://example.com''])]"
  by (simp add: parse_qs_def parse_qsl_def unquote_plus_def unquote_encoded)
    (simp add: unquote_def)

lemma extract_encoded:
  "extract_direct_url ''https://www.youtube.com/redirect?q=https%3A%2F%2Fexample.com'' =
   ''https://example.com''"
  by (simp add: extract_direct_url_def urlparse_query_encoded parse_qs_encoded unquote_def)

theorem extract_direct_url_idempotent_when_resolved_witness:
  "extract_direct_url ''https://www.youtube.com/redirect?q=https%3A%2F%2Fexample.com'' =
     ''https://example.com'' \<and>
   \<not> contains ''youtube.com/redirect'' ''https://example.com'' \<and>
   extract_direct_url ''https://example.com'' = ''https://example.com''"
  using extract_direct_url_idempotent_when_resolved
      [of "''https://www.youtube.com/redirect?q=https%3A%2F%2Fexample.com''"]
    extract_encoded
  by simp

section \<open>Properties of the batch orchestrator and the export\<close>

lemma keys_dict_set: "map fst (dict_set k v d) = add_key (map fst d) k"
  by (induction d) (auto simp add: add_key_def rev_image_eqI)

lemma analyze_loop_keys:
  "map fst (analyze_loop analyze w channels results) =
     foldl add_key (map fst results)
       (map fst (filter (\<lambda>outcome. snd outcome \<noteq> None) (analysis_outcomes analyze w channels)))"
proof (induction channels arbitrary: w results)
  case Nil
  show ?case by simp
next
  case (Cons channel channels)
  show ?case
    by (cases "analyze w (channel_id channel)")
      (auto simp add: Cons.IH keys_dict_set split: option.splits)
qed

lemma export_keys:
  "map fst (foldl (\<lambda>chans (cid, result).
                     dict_set (export_key cid result) (metrics result) chans) acc results) =
     foldl add_key (map fst acc) (map (\<lambda>(cid, result). export_key cid result) results)"
  by (induction results arbitrary: acc) (auto simp add: keys_dict_set)

lemma foldl_add_key_distinct:
  "distinct acc \<Longrightarrow> distinct (foldl add_key acc xs) \<and> set (foldl add_key acc xs) = set acc \<union> set xs"
proof (induction xs arbitrary: acc)
  case Nil
  then show ?case by simp
next
  case (Cons x xs)
  from Cons.prems have "distinct (add_key acc x)"
    by (simp add: add_key_def)
  from Cons.IH [OF this] show ?case
    by (auto simp add: add_key_def split: if_splits)
qed

lemma foldl_add_key_fresh:
  "distinct xs \<Longrightarrow> set acc \<inter> set xs = {} \<Longrightarrow> foldl add_key acc xs = acc @ xs"
proof (induction xs arbitrary: acc)
  case Nil
  show ?case by simp
next
  case (Cons x xs)
  from Cons.prems have a: "add_key acc x = acc @ [x]"
    by (auto simp add: add_key_def)
  from Cons.prems have "set (acc @ [x]) \<inter> set xs = {}" "distinct xs"
    by auto
  from Cons.IH [OF this(2,1)] a show ?case
    by simp
qed

lemma distinct_first_occurrences: "distinct (first_occurrences xs)"
  using foldl_add_key_distinct [of "[]" xs] by (simp add: first_occurrences_def)

lemma first_occurrences_distinct: "distinct xs \<Longrightarrow> first_occurrences xs = xs"
  using foldl_add_key_fresh [of xs "[]"] by (simp add: first_occurrences_def)

lemma analysis_outcomes_ids:
  "map fst (analysis_outcomes analyze w channels) = map channel_id channels"
proof (induction channels arbitrary: w)
  case Nil
  show ?case by simp
next
  case (Cons channel channels)
  show ?case
    by (cases "analyze w (channel_id channel)") (simp add: Cons.IH)
qed

text \<open>
  C3 (as stated).  Two channels with different ids and the same title: the result set has
  an entry for each id, but the exported document has a single entry, whose key is the
  title and not a channel id.
\<close>

theorem export_keyed_by_id_counterexample:
  "analyze_search_results scenario_analyze 0
     [\<lparr>channel_id = ''UC1'', channel_title = ''News''\<rparr>,
      \<lparr>channel_id = ''UC2'', channel_title = ''News''\<rparr>] =
     [(''UC1'', scenario_result ''UC1''), (''UC2'', scenario_result ''UC2'')] \<and>
   export_to_json ''2024-01-01 00:00:00''
     [(''UC1'', scenario_result ''UC1''), (''UC2'', scenario_result ''UC2'')] (Some ''news'') =
     Some \<lparr>export_query = ''news'', export_timestamp = ''2024-01-01 00:00:00'',
           export_channels = [(''News'', metrics (scenario_result ''UC2''))]\<rparr>"
  by (simp add: analyze_search_results_def scenario_analyze_def export_to_json_def export_key_def
        scenario_result_def scenario_info_def)

text \<open>
  C3 (amended).  The result set of \<^verbatim>\<open>analyze_search_results\<close> is keyed by channel id: its
  keys are the ids of the channels whose analysis returned a result, each once, in the
  order in which they first appear in the search list.  The channels of the exported
  document are keyed by channel title (by the channel id only where a result has no
  channel information), each key once, in the order of first appearance; channels that
  share a title share one entry.
\<close>

theorem result_set_keyed_by_id_export_by_title:
  "map fst (analyze_search_results analyze w channels) =
     first_occurrences
       (map fst (filter (\<lambda>outcome. snd outcome \<noteq> None) (analysis_outcomes analyze w channels))) \<and>
   distinct (map fst (analyze_search_results analyze w channels)) \<and>
   (distinct (map channel_id channels) \<longrightarrow>
      map fst (analyze_search_results analyze w channels) =
        map fst (filter (\<lambda>outcome. snd outcome \<noteq> None) (analysis_outcomes analyze w channels))) \<and>
   (export_to_json now results query = Some doc \<longrightarrow>
      map fst (export_channels doc) =
        first_occurrences (map (\<lambda>(cid, result). export_key cid result) results) \<and>
      distinct (map fst (export_channels doc)))"
proof (intro conjI impI)
  show keys: "map fst (analyze_search_results analyze w channels) =
     first_occurrences
       (map fst (filter (\<lambda>outcome. snd outcome \<noteq> None) (analysis_outcomes analyze w channels)))"
    by (simp add: analyze_search_results_def analyze_loop_keys first_occurrences_def)
  show "distinct (map fst (analyze_search_results analyze w channels))"
    by (simp only: keys distinct_first_occurrences)
  {
    assume "distinct (map channel_id channels)"
    then have "distinct (map fst (analysis_outcomes analyze w channels))"
      by (simp add: analysis_outcomes_ids)
    then have "distinct (map fst (filter (\<lambda>outcome. snd outcome \<noteq> None)
                 (analysis_outcomes analyze w channels)))"
      by (rule distinct_map_filter)
    then show "map fst (analyze_search_results analyze w channels) =
        map fst (filter (\<lambda>outcome. snd outcome \<noteq> None) (analysis_outcomes analyze w channels))"
      by (simp add: keys first_occurrences_distinct)
  }
  {
    assume "export_to_json now results query = Some doc"
    then have doc: "export_channels doc =
        foldl (\<lambda>chans (cid, result). dict_set (export_key cid result) (metrics result) chans)
          [] results"
      by (auto simp add: export_to_json_def split: if_splits)
    show k: "map fst (export_channels doc) =
        first_occurrences (map (\<lambda>(cid, result). export_key cid result) results)"
      by (simp add: doc export_keys first_occurrences_def)
    show "distinct (map fst (export_channels doc))"
      by (simp only: k distinct_first_occurrences)
  }
qed

theorem result_set_keyed_by_id_export_by_title_witness:
  "analyze_search_results scenario_analyze 0
     [\<lparr>channel_id = ''UC123'', channel_title = ''News''\<rparr>,
      \<lparr>channel_id = ''UCmissing'', channel_title = ''Gone''\<rparr>] =
     [(''UC123'', scenario_result ''UC123'')] \<and>
   distinct (map channel_id
     [\<lparr>channel_id = ''UC123'', channel_title = ''News''\<rparr>,
      \<lparr>channel_id = ''UCmissing'', channel_title = ''Gone''\<rparr>]) \<and>
   map fst (filter (\<lambda>outcome. snd outcome \<noteq> None)
     (analysis_outcomes scenario_analyze 0
        [\<lparr>channel_id = ''UC123'', channel_title = ''News''\<rparr>,
         \<lparr>channel_id = ''UCmissing'', channel_title = ''Gone''\<rparr>])) = [''UC123''] \<and>
   export_to_json ''2024-01-01 00:00:00'' [(''UC123'', scenario_result ''UC123'')] None =
     Some \<lparr>export_query = ''direct_export'', export_timestamp = ''2024-01-01 00:00:00'',
           export_channels = [(''News'', metrics (scenario_result ''UC123''))]\<rparr> \<and>
   map fst [(''News'', metrics (scenario_result ''UC123''))] =
     first_occurrences
       (map (\<lambda>(cid, result). export_key cid result) [(''UC123'', scenario_result ''UC123'')])"
proof -
  have a: "export_to_json ''2024-01-01 00:00:00'' [(''UC123'', scenario_result ''UC123'')] None =
     Some \<lparr>export_query = ''direct_export'', export_timestamp = ''2024-01-01 00:00:00'',
           export_channels = [(''News'', metrics (scenario_result ''UC123''))]\<rparr>"
    by (simp add: export_to_json_def export_key_def scenario_result_def scenario_info_def)
  have b: "analyze_search_results scenario_analyze 0
     [\<lparr>channel_id = ''UC123'', channel_title = ''News''\<rparr>,
      \<lparr>channel_id = ''UCmissing'', channel_title = ''Gone''\<rparr>] =
     [(''UC123'', scenario_result ''UC123'')]"
    by (simp add: analyze_search_results_def scenario_analyze_def)
  have c: "map fst (filter (\<lambda>outcome. snd outcome \<noteq> None)
     (analysis_outcomes scenario_analyze 0
        [\<lparr>channel_id = ''UC123'', channel_title = ''News''\<rparr>,
         \<lparr>channel_id = ''UCmissing'', channel_title = ''Gone''\<rparr>])) = [''UC123'']"
    by (simp add: scenario_analyze_def)
  from result_set_keyed_by_id_export_by_title
      [of scenario_analyze 0
          "[\<lparr>channel_id = ''UC123'', channel_title = ''News''\<rparr>,
            \<lparr>channel_id = ''UCmissing'', channel_title = ''Gone''\<rparr>]"
          "''2024-01-01 00:00:00''" "[(''UC123'', scenario_result ''UC123'')]" None
          "\<lparr>export_query = ''direct_export'', export_timestamp = ''2024-01-01 00:00:00'',
           export_channels = [(''News'', metrics (scenario_result ''UC123''))]\<rparr>"]
    a b c
  show ?thesis
    by simp
qed

end
